theory Spec2Isabelle
  imports
    Complex_Main
    "HOL-Library.Sublist"
    "HOL-Library.Char_ord"
    "HOL-Library.List_Lexorder"
begin

section \<open>Python strings\<close>

text \<open>
  Strings are character lists, a character being a code point below 256.  The catalog and
  every literal of the server are ASCII.  The operations below are the Python string
  methods the server calls, on such strings: \<^verbatim>\<open>sub in s\<close>, \<^verbatim>\<open>s.lower()\<close>, \<^verbatim>\<open>s.strip()\<close>,
  \<^verbatim>\<open>s.split(',')\<close> and \<^verbatim>\<open>', '.join(xs)\<close>.
\<close>

text \<open>\<^verbatim>\<open>sub in s\<close>: \<open>sub\<close> occurs in \<open>s\<close> as a contiguous block.\<close>

fun str_in :: "string \<Rightarrow> string \<Rightarrow> bool" where
  "str_in sub [] = (sub = [])"
| "str_in sub (c # cs) = (prefix sub (c # cs) \<or> str_in sub cs)"

text \<open>
  \<^verbatim>\<open>s.lower()\<close>: the 26 capital letters and the 30 capital letters of the upper half
  (0xC0 to 0xDE without the multiplication sign 0xD7) are mapped to their small letters,
  32 places further; everything else is kept.
\<close>

definition char_lower :: "char \<Rightarrow> char" where
  "char_lower c =
     (case map_of
        (zip (''ABCDEFGHIJKLMNOPQRSTUVWXYZ'' @
              [CHR 0xC0, CHR 0xC1, CHR 0xC2, CHR 0xC3, CHR 0xC4, CHR 0xC5, CHR 0xC6, CHR 0xC7,
               CHR 0xC8, CHR 0xC9, CHR 0xCA, CHR 0xCB, CHR 0xCC, CHR 0xCD, CHR 0xCE, CHR 0xCF,
               CHR 0xD0, CHR 0xD1, CHR 0xD2, CHR 0xD3, CHR 0xD4, CHR 0xD5, CHR 0xD6,
               CHR 0xD8, CHR 0xD9, CHR 0xDA, CHR 0xDB, CHR 0xDC, CHR 0xDD, CHR 0xDE])
             (''abcdefghijklmnopqrstuvwxyz'' @
              [CHR 0xE0, CHR 0xE1, CHR 0xE2, CHR 0xE3, CHR 0xE4, CHR 0xE5, CHR 0xE6, CHR 0xE7,
               CHR 0xE8, CHR 0xE9, CHR 0xEA, CHR 0xEB, CHR 0xEC, CHR 0xED, CHR 0xEE, CHR 0xEF,
               CHR 0xF0, CHR 0xF1, CHR 0xF2, CHR 0xF3, CHR 0xF4, CHR 0xF5, CHR 0xF6,
               CHR 0xF8, CHR 0xF9, CHR 0xFA, CHR 0xFB, CHR 0xFC, CHR 0xFD, CHR 0xFE])) c of
        Some d \<Rightarrow> d
      | None \<Rightarrow> c)"

definition lower :: "string \<Rightarrow> string" where
  "lower s = map char_lower s"

text \<open>
  \<^verbatim>\<open>s.strip()\<close>: the characters for which \<^verbatim>\<open>str.isspace\<close> holds (tab, line feed,
  vertical tab, form feed, carriage return, the four separators 0x1C to 0x1F, the space,
  the next-line control 0x85 and the no-break space 0xA0) are removed from both ends.
\<close>

definition isspace :: "char \<Rightarrow> bool" where
  "isspace c \<longleftrightarrow>
     c \<in> set [CHR 0x09, CHR 0x0A, CHR 0x0B, CHR 0x0C, CHR 0x0D,
              CHR 0x1C, CHR 0x1D, CHR 0x1E, CHR 0x1F, CHR 0x20, CHR 0x85, CHR 0xA0]"

definition strip :: "string \<Rightarrow> string" where
  "strip s = rev (dropWhile isspace (rev (dropWhile isspace s)))"

text \<open>\<^verbatim>\<open>s.split(sep)\<close> for a separator of one character; the result is never empty.\<close>

fun split :: "char \<Rightarrow> string \<Rightarrow> string list" where
  "split sep [] = [[]]"
| "split sep (c # cs) =
     (let r = split sep cs in if c = sep then [] # r else (c # hd r) # tl r)"

text \<open>\<^verbatim>\<open>sep.join(xs)\<close>.\<close>

fun join :: "string \<Rightarrow> string list \<Rightarrow> string" where
  "join sep [] = []"
| "join sep [s] = s"
| "join sep (s # t # ts) = s @ sep @ join sep (t # ts)"

section \<open>The pseudo-random generator of the standard library\<close>

text \<open>
  The server calls \<^verbatim>\<open>random.seed(42)\<close> and \<^verbatim>\<open>random.random()\<close> of the Python standard
  library, which act on one hidden, process-wide generator state.  The library is not part
  of the repository, so the generator is a parameter: a type \<open>'g\<close> of generator states,
  the state that seeding with an integer produces, and the draw, which returns a number
  and the next state.
\<close>

record 'g rng =
  rng_seed :: "int \<Rightarrow> 'g"
  rng_random :: "'g \<Rightarrow> real \<times> 'g"

text \<open>The documented contract of \<^verbatim>\<open>random.random()\<close>: a float in the half-open unit interval.\<close>

definition rng_unit :: "'g rng \<Rightarrow> bool" where
  "rng_unit R \<longleftrightarrow> (\<forall>g. 0 \<le> fst (rng_random R g) \<and> fst (rng_random R g) < 1)"

section \<open>Focal points\<close>

text \<open>
  A focal point is the dictionary with the keys \<^verbatim>\<open>'x'\<close>, \<^verbatim>\<open>'y'\<close> and \<^verbatim>\<open>'weight'\<close>.
  Python floats are modelled by the real numbers they denote: a decimal literal is its
  exact value, and arithmetic is exact.
\<close>

record focal_point =
  fp_x :: real
  fp_y :: real
  fp_weight :: real

text \<open>
  The loop of the \<^verbatim>\<open>curved\<close>/\<^verbatim>\<open>tail\<close> branch: \<^verbatim>\<open>for i in range(num_points)\<close>, appending
  one point per round.
\<close>

definition curved_step :: "nat \<Rightarrow> nat \<Rightarrow> focal_point list \<Rightarrow> focal_point list" where
  "curved_step num_points i points =
     (let t = real i / (real num_points - 1);
          x = 0.2 + 0.6 * t;
          y = 0.5 + 0.2 * sin (t * pi);
          weight = (if i < 2 then 0.4 else 0.2)
      in points @ [\<lparr>fp_x = x, fp_y = y, fp_weight = weight\<rparr>])"

text \<open>
  The loop of the \<^verbatim>\<open>dispersed\<close> branch: \<^verbatim>\<open>for i in range(6)\<close>, three draws per round, in
  the order in which the dictionary display evaluates them.
\<close>

definition dispersed_step ::
  "'g rng \<Rightarrow> nat \<Rightarrow> focal_point list \<times> 'g \<Rightarrow> focal_point list \<times> 'g" where
  "dispersed_step R i st =
     (let (points, g0) = st;
          (r1, g1) = rng_random R g0;
          (r2, g2) = rng_random R g1;
          (r3, g3) = rng_random R g2
      in (points @ [\<lparr>fp_x = 0.2 + r1 * 0.6, fp_y = 0.2 + r2 * 0.6,
                     fp_weight = 0.2 + r3 * 0.2\<rparr>], g3))"

text \<open>
  \<^verbatim>\<open>generate_focal_points(brightness, shape, width, height)\<close>.  The first argument pair is
  the generator and its state before the call; the state after the call is returned with
  the points.  The canvas size is \<^verbatim>\<open>Optional[int]\<close> where the tool reads it, and is passed
  through unchanged.
\<close>

definition generate_focal_points ::
  "'g rng \<Rightarrow> 'g \<Rightarrow> string \<Rightarrow> string \<Rightarrow> int option \<Rightarrow> int option \<Rightarrow> focal_point list \<times> 'g" where
  "generate_focal_points R g brightness shape width height =
    (if str_in ''two_bright_stars'' brightness then
       ([\<lparr>fp_x = 0.35, fp_y = 0.5, fp_weight = 0.5\<rparr>,
         \<lparr>fp_x = 0.65, fp_y = 0.5, fp_weight = 0.5\<rparr>], g)
     else if str_in ''extremely_bright_star'' brightness then
       ([\<lparr>fp_x = 0.5, fp_y = 0.5, fp_weight = 1.0\<rparr>,
         \<lparr>fp_x = 0.35, fp_y = 0.6, fp_weight = 0.2\<rparr>,
         \<lparr>fp_x = 0.65, fp_y = 0.4, fp_weight = 0.2\<rparr>], g)
     else if str_in ''bright_cross'' brightness \<or> str_in ''cross'' shape then
       ([\<lparr>fp_x = 0.5, fp_y = 0.5, fp_weight = 0.5\<rparr>,
         \<lparr>fp_x = 0.5, fp_y = 0.3, fp_weight = 0.3\<rparr>,
         \<lparr>fp_x = 0.3, fp_y = 0.5, fp_weight = 0.25\<rparr>,
         \<lparr>fp_x = 0.7, fp_y = 0.5, fp_weight = 0.25\<rparr>,
         \<lparr>fp_x = 0.5, fp_y = 0.7, fp_weight = 0.3\<rparr>], g)
     else if str_in ''belt'' shape \<or> str_in ''hourglass'' shape then
       ([\<lparr>fp_x = 0.5, fp_y = 0.45, fp_weight = 0.4\<rparr>,
         \<lparr>fp_x = 0.35, fp_y = 0.3, fp_weight = 0.35\<rparr>,
         \<lparr>fp_x = 0.65, fp_y = 0.3, fp_weight = 0.35\<rparr>,
         \<lparr>fp_x = 0.35, fp_y = 0.7, fp_weight = 0.25\<rparr>,
         \<lparr>fp_x = 0.65, fp_y = 0.7, fp_weight = 0.25\<rparr>], g)
     else if str_in ''w_zigzag'' shape then
       ([\<lparr>fp_x = 0.2, fp_y = 0.5, fp_weight = 0.25\<rparr>,
         \<lparr>fp_x = 0.35, fp_y = 0.4, fp_weight = 0.25\<rparr>,
         \<lparr>fp_x = 0.5, fp_y = 0.5, fp_weight = 0.25\<rparr>,
         \<lparr>fp_x = 0.65, fp_y = 0.4, fp_weight = 0.25\<rparr>,
         \<lparr>fp_x = 0.8, fp_y = 0.5, fp_weight = 0.25\<rparr>], g)
     else if str_in ''dipper'' shape then
       ([\<lparr>fp_x = 0.3, fp_y = 0.45, fp_weight = 0.25\<rparr>,
         \<lparr>fp_x = 0.45, fp_y = 0.45, fp_weight = 0.25\<rparr>,
         \<lparr>fp_x = 0.45, fp_y = 0.6, fp_weight = 0.25\<rparr>,
         \<lparr>fp_x = 0.3, fp_y = 0.6, fp_weight = 0.25\<rparr>,
         \<lparr>fp_x = 0.55, fp_y = 0.5, fp_weight = 0.2\<rparr>,
         \<lparr>fp_x = 0.65, fp_y = 0.45, fp_weight = 0.2\<rparr>,
         \<lparr>fp_x = 0.75, fp_y = 0.4, fp_weight = 0.2\<rparr>], g)
     else if str_in ''square'' shape then
       ([\<lparr>fp_x = 0.35, fp_y = 0.35, fp_weight = 0.3\<rparr>,
         \<lparr>fp_x = 0.65, fp_y = 0.35, fp_weight = 0.3\<rparr>,
         \<lparr>fp_x = 0.65, fp_y = 0.65, fp_weight = 0.3\<rparr>,
         \<lparr>fp_x = 0.35, fp_y = 0.65, fp_weight = 0.3\<rparr>], g)
     else if str_in ''triangular'' shape then
       ([\<lparr>fp_x = 0.5, fp_y = 0.3, fp_weight = 0.4\<rparr>,
         \<lparr>fp_x = 0.35, fp_y = 0.65, fp_weight = 0.35\<rparr>,
         \<lparr>fp_x = 0.65, fp_y = 0.65, fp_weight = 0.35\<rparr>], g)
     else if str_in ''curved'' shape \<or> str_in ''tail'' shape then
       (fold (curved_step 7) [0..<7] [], g)
     else if str_in ''dispersed'' shape then
       fold (dispersed_step R) [0..<6] ([], rng_seed R 42)
     else
       ([\<lparr>fp_x = 0.5, fp_y = 0.35, fp_weight = 0.4\<rparr>,
         \<lparr>fp_x = 0.35, fp_y = 0.65, fp_weight = 0.35\<rparr>,
         \<lparr>fp_x = 0.65, fp_y = 0.65, fp_weight = 0.35\<rparr>], g))"

section \<open>The classifiers over the shape tag\<close>

record visual_flow =
  primary_direction :: string
  flow_type :: string
  movement_quality :: string
  rhythm :: string

text \<open>\<^verbatim>\<open>determine_visual_flow(shape, geometry_data)\<close>; the geometry is \<^verbatim>\<open>Optional[Dict]\<close>.\<close>

definition determine_visual_flow :: "string \<Rightarrow> 'geo option \<Rightarrow> visual_flow" where
  "determine_visual_flow shape geometry_data =
    (if str_in ''cascade'' shape \<or> str_in ''dispersed_cascade'' shape then
       \<lparr>primary_direction = ''downward'', flow_type = ''cascading'',
        movement_quality = ''fluid, dispersing'', rhythm = ''irregular, natural flow''\<rparr>
     else if str_in ''wings'' shape \<or> str_in ''symmetric'' shape then
       \<lparr>primary_direction = ''horizontal'', flow_type = ''bilateral'',
        movement_quality = ''balanced, expansive'', rhythm = ''symmetrical''\<rparr>
     else if str_in ''curved'' shape \<or> str_in ''tail'' shape then
       \<lparr>primary_direction = ''curved sweep'', flow_type = ''sinuous'',
        movement_quality = ''dynamic, flowing'', rhythm = ''continuous curve''\<rparr>
     else if str_in ''cross'' shape then
       \<lparr>primary_direction = ''radial'', flow_type = ''centered'',
        movement_quality = ''stable, anchored'', rhythm = ''four-way symmetry''\<rparr>
     else if str_in ''linear'' shape \<or> str_in ''belt'' shape then
       \<lparr>primary_direction = ''horizontal'', flow_type = ''linear'',
        movement_quality = ''direct, purposeful'', rhythm = ''regular spacing''\<rparr>
     else if str_in ''zigzag'' shape \<or> str_in ''w_'' shape then
       \<lparr>primary_direction = ''alternating'', flow_type = ''zigzag'',
        movement_quality = ''energetic, angular'', rhythm = ''rhythmic alternation''\<rparr>
     else if str_in ''dipper'' shape then
       \<lparr>primary_direction = ''L-shaped'', flow_type = ''segmented'',
        movement_quality = ''contained then extending'',
        rhythm = ''bowl to handle transition''\<rparr>
     else
       \<lparr>primary_direction = ''multi-directional'', flow_type = ''balanced'',
        movement_quality = ''stable'', rhythm = ''varied''\<rparr>)"

text \<open>\<^verbatim>\<open>determine_spatial_distribution(shape, star_count)\<close>.\<close>

definition determine_spatial_distribution :: "string \<Rightarrow> int \<Rightarrow> string" where
  "determine_spatial_distribution shape star_count =
    (if str_in ''compact'' shape then ''clustered_central''
     else if str_in ''dispersed'' shape \<or> str_in ''cascade'' shape then ''scattered_wide''
     else if str_in ''linear'' shape \<or> str_in ''belt'' shape then ''linear_arrangement''
     else if star_count \<le> 5 then ''minimal_sparse''
     else if star_count \<ge> 10 then ''complex_dense''
     else ''moderate_distributed'')"

section \<open>The balance calculator\<close>

datatype py_error = ZeroDivisionError | ValidationError

text \<open>The builtin \<^verbatim>\<open>sum\<close>: it starts from 0 and adds the items from left to right.\<close>

definition py_sum :: "real list \<Rightarrow> real" where
  "py_sum xs = foldl (+) 0 xs"

record center =
  com_x :: real
  com_y :: real

record balance =
  balance_type :: string
  center_of_mass :: center
  symmetry :: string
  stability :: string

text \<open>
  \<^verbatim>\<open>calculate_balance(shape, focal_points)\<close>.  A division by a total weight of zero raises
  \<^verbatim>\<open>ZeroDivisionError\<close> in Python; the model returns it.
\<close>

definition calculate_balance :: "string \<Rightarrow> focal_point list \<Rightarrow> py_error + balance" where
  "calculate_balance shape focal_points =
    (let total_weight = py_sum (map fp_weight focal_points) in
     if total_weight = 0 then Inl ZeroDivisionError
     else
       let center_x = py_sum (map (\<lambda>p. fp_x p * fp_weight p) focal_points) / total_weight;
           center_y = py_sum (map (\<lambda>p. fp_y p * fp_weight p) focal_points) / total_weight;
           balance_type =
             (if \<bar>center_x - 0.5\<bar> < 0.1 \<and> \<bar>center_y - 0.5\<bar> < 0.1 then ''centered''
              else if \<bar>center_x - 0.5\<bar> < 0.1 then ''vertically_centered''
              else if \<bar>center_y - 0.5\<bar> < 0.1 then ''horizontally_centered''
              else ''asymmetric'');
           is_symmetric =
             (str_in ''symmetric'' shape \<or> str_in ''cross'' shape \<or> str_in ''square'' shape)
       in Inr \<lparr>balance_type = balance_type,
               center_of_mass = \<lparr>com_x = center_x, com_y = center_y\<rparr>,
               symmetry = (if is_symmetric then ''symmetric'' else ''asymmetric''),
               stability = (if balance_type = ''centered'' then ''high'' else ''dynamic'')\<rparr>)"

section \<open>Catalog records\<close>

text \<open>
  A catalog record is a dictionary.  The keys the server reads with \<^verbatim>\<open>.get(key, default)\<close>
  are optional fields; \<^verbatim>\<open>abbr\<close> is read with \<^verbatim>\<open>[]\<close> and is always there.
\<close>

record metadata =
  abbr :: string
  genitive :: string
  story :: "string option"
  theme :: "string option"
  visual_character :: "string option"
  brightness_profile :: "string option"
  star_count_visual :: "int option"
  shape :: "string option"

text \<open>\<^verbatim>\<open>d.get(key, default)\<close>.\<close>

definition get_or :: "'a option \<Rightarrow> 'a \<Rightarrow> 'a" where
  "get_or v d = (case v of None \<Rightarrow> d | Some a \<Rightarrow> a)"

section \<open>Theme extraction and suggested elements\<close>

text \<open>\<^verbatim>\<open>extract_mythology_themes(metadata)\<close>.\<close>

definition extract_mythology_themes :: "metadata \<Rightarrow> string list" where
  "extract_mythology_themes metadata =
    (let story' = lower (get_or (story metadata) []);
         theme' = lower (get_or (theme metadata) []);
         themes0 = [];
         themes1 = (if theme' \<noteq> [] then themes0 @ map strip (split CHR '','' theme')
                    else themes0);
         themes2 = (if str_in ''rescue'' story' \<or> str_in ''save'' story'
                    then themes1 @ [''heroic rescue''] else themes1);
         themes3 = (if str_in ''hunt'' story' \<or> str_in ''prey'' story'
                    then themes2 @ [''the hunt''] else themes2);
         themes4 = (if str_in ''transform'' story'
                    then themes3 @ [''transformation''] else themes3);
         themes5 = (if str_in ''death'' story' \<or> str_in ''kill'' story' \<or> str_in ''slay'' story'
                    then themes4 @ [''mortality''] else themes4);
         themes6 = (if str_in ''eternal'' story' \<or> str_in ''immortal'' story'
                    then themes5 @ [''eternity''] else themes5);
         themes7 = (if str_in ''love'' story'
                    then themes6 @ [''love and loss''] else themes6);
         themes8 = (if str_in ''wisdom'' story' \<or> str_in ''teacher'' story'
                    then themes7 @ [''wisdom''] else themes7);
         themes9 = (if str_in ''punishment'' story'
                    then themes8 @ [''divine punishment''] else themes8)
     in take 5 themes9)"

record suggestions =
  subjects :: "string list"
  lighting :: "string list"
  atmosphere :: "string list"
  color_palette :: "string list"

text \<open>\<^verbatim>\<open>generate_suggested_elements(metadata, shape, brightness)\<close>.\<close>

definition generate_suggested_elements :: "metadata \<Rightarrow> string \<Rightarrow> string \<Rightarrow> suggestions" where
  "generate_suggested_elements metadata shape' brightness =
    (let story' = lower (get_or (story metadata) []);
         theme' = lower (get_or (theme metadata) [])
     in
     \<lparr>subjects =
        (if str_in ''hunt'' story' then
           [''figures in pursuit'', ''dynamic poses'', ''animals'', ''weapons'']
         else if str_in ''rescue'' story' then
           [''hero and victim'', ''chains or bonds'', ''triumphant pose'']
         else if str_in ''music'' story' \<or> str_in ''lyre'' story' then
           [''musical instruments'', ''flowing fabric'', ''contemplative pose'']
         else if str_in ''wisdom'' story' then
           [''scroll or book'', ''teaching gesture'', ''attentive students'']
         else [''primary figure'', ''supporting elements'', ''narrative props'']),
      lighting =
        (if str_in ''extremely_bright'' brightness then
           [''dramatic key light'', ''high contrast'', ''star-like highlights'',
            ''radiating glow'']
         else if str_in ''two_bright'' brightness then
           [''dual light sources'', ''balanced illumination'', ''twin highlights'']
         else if str_in ''bright_cross'' brightness then
           [''four-point lighting'', ''symmetrical illumination'', ''centered highlight'']
         else [''even lighting'', ''gentle highlights'', ''soft shadows'']),
      atmosphere =
        (if str_in ''cascade'' shape' then
           [''flowing mist'', ''falling elements'', ''vertical movement'']
         else if str_in ''curved'' shape' \<or> str_in ''tail'' shape' then
           [''swirling smoke'', ''curved lines'', ''dynamic energy'']
         else if str_in ''symmetric'' shape' \<or> str_in ''cross'' shape' then
           [''balanced composition'', ''architectural elements'', ''formal symmetry'']
         else [''natural environment'', ''organic forms'', ''irregular shapes'']),
      color_palette =
        (if str_in ''water'' theme' \<or> str_in ''flow'' theme' then
           [''blues'', ''teals'', ''silver'', ''flowing gradients'']
         else if str_in ''fire'' theme' \<or> str_in ''power'' theme' then
           [''reds'', ''oranges'', ''golds'', ''warm tones'']
         else if str_in ''death'' theme' \<or> str_in ''darkness'' theme' then
           [''deep purples'', ''blacks'', ''dark blues'', ''somber tones'']
         else if str_in ''wisdom'' theme' \<or> str_in ''healing'' theme' then
           [''greens'', ''soft golds'', ''earth tones'', ''balanced hues'']
         else [''starlight whites'', ''night sky blues'', ''cosmic purples'',
               ''celestial palette''])\<rparr>)"

section \<open>The mapping engine\<close>

record CompositionParameters =
  focal_points :: "focal_point list"
  visual_flow :: visual_flow
  balance :: balance
  spatial_distribution :: string
  mythology_themes :: "string list"
  suggested_elements :: suggestions

text \<open>
  \<^verbatim>\<open>map_constellation_to_composition\<close>.  The generator and its state come first, as in
  \<open>generate_focal_points\<close>; an exception of the balance calculator is passed on.  The
  values handed to the \<^verbatim>\<open>CompositionParameters\<close> constructor have the declared field
  types, and its stripping of strings finds nothing to remove (the strings are constants
  or were stripped by \<^verbatim>\<open>str.strip\<close>), so the constructor stores them as they are.
\<close>

definition map_constellation_to_composition ::
  "'g rng \<Rightarrow> 'g \<Rightarrow> string \<Rightarrow> metadata \<Rightarrow> 'geo option \<Rightarrow> int option \<Rightarrow> int option \<Rightarrow> bool
     \<Rightarrow> (py_error + CompositionParameters) \<times> 'g" where
  "map_constellation_to_composition R g constellation_name metadata geometry_data
       canvas_width canvas_height include_mythology =
    (let shape' = get_or (shape metadata) ''dispersed'';
         brightness = get_or (brightness_profile metadata) ''moderate'';
         (focal_points', g') =
            generate_focal_points R g brightness shape' canvas_width canvas_height;
         visual_flow' = determine_visual_flow shape' geometry_data
     in case calculate_balance shape' focal_points' of
          Inl e \<Rightarrow> (Inl e, g')
        | Inr balance' \<Rightarrow>
           (let spatial_distribution' =
                  determine_spatial_distribution shape'
                    (get_or (star_count_visual metadata) 5);
                mythology_themes' =
                  (if include_mythology then extract_mythology_themes metadata else []);
                suggested_elements' = generate_suggested_elements metadata shape' brightness
            in (Inr \<lparr>focal_points = focal_points',
                     visual_flow = visual_flow',
                     balance = balance',
                     spatial_distribution = spatial_distribution',
                     mythology_themes = mythology_themes',
                     suggested_elements = suggested_elements'\<rparr>, g')))"

section \<open>The catalog\<close>

text \<open>
  One entry of the \<^verbatim>\<open>CONSTELLATIONS\<close> table; the arguments are the eight keys in the order
  in which every entry of the table lists them.
\<close>

definition entry ::
  "string \<Rightarrow> string \<Rightarrow> string \<Rightarrow> string \<Rightarrow> string \<Rightarrow> string \<Rightarrow> int \<Rightarrow> string \<Rightarrow> metadata" where
  "entry a g s t v b n sh =
     \<lparr>abbr = a, genitive = g, story = Some s, theme = Some t, visual_character = Some v,
      brightness_profile = Some b, star_count_visual = Some n, shape = Some sh\<rparr>"

text \<open>The table, as an association list in the insertion order of the dictionary.\<close>

definition CONSTELLATIONS :: "(string \<times> metadata) list" where
  "CONSTELLATIONS =
    [(''Andromeda'', entry ''And'' ''Andromedae''
        ''Chained princess rescued by Perseus''
        ''Sacrifice, rescue, beauty in chains''
        ''Linear with graceful curves, horizontal spread''
        ''moderate_to_bright'' 7 ''elongated_linear''),
     (''Aquarius'', entry ''Aqr'' ''Aquarii''
        ''Water bearer pouring from celestial jar''
        ''Flow, abundance, giving''
        ''Cascading downward flow, dispersed''
        ''moderate'' 8 ''dispersed_cascade''),
     (''Aquila'', entry ''Aql'' ''Aquilae''
        (''Eagle carrying Zeus'' @ [CHR 0x27] @ ''s thunderbolts'')
        ''Power, divine messenger, soaring''
        ''Wings spread wide, central bright star''
        ''very_bright_center'' 6 ''symmetric_wings''),
     (''Aries'', entry ''Ari'' ''Arietis''
        ''Golden fleece ram''
        ''Courage, sacrifice, precious treasure''
        (''Compact curved form, ram'' @ [CHR 0x27] @ ''s horn'')
        ''bright'' 4 ''compact_curved''),
     (''Cancer'', entry ''Cnc'' ''Cancri''
        ''Crab sent by Hera to distract Hercules''
        ''Persistence, protective shell''
        ''Compact cluster, crab body''
        ''faint_with_cluster'' 5 ''compact_central''),
     (''Canis Major'', entry ''CMa'' ''Canis Majoris''
        ''Greater hunting dog following Orion''
        ''Loyalty, hunting, companionship''
        ''Compact with brilliant Sirius, dynamic stance''
        ''extremely_bright_star'' 8 ''compact_dynamic''),
     (''Capricornus'', entry ''Cap'' ''Capricorni''
        ''Sea-goat with fish tail''
        ''Duality, earth and water, ambition''
        (''Triangular form, goat'' @ [CHR 0x27] @ ''s head to fish tail'')
        ''moderate'' 7 ''triangular''),
     (''Cassiopeia'', entry ''Cas'' ''Cassiopeiae''
        ''Vain queen bound to throne''
        ''Pride, punishment, eternal vigilance''
        ''Distinctive W or M shape, highly recognizable''
        ''bright'' 5 ''w_zigzag''),
     (''Centaurus'', entry ''Cen'' ''Centauri''
        ''Wise centaur, teacher of heroes''
        ''Wisdom, healing, mentorship''
        ''Large spread, bow-wielding stance''
        ''very_bright'' 11 ''large_complex''),
     (''Cygnus'', entry ''Cyg'' ''Cygni''
        ''Swan, Zeus in disguise, Northern Cross''
        ''Transformation, grace, divine deception''
        ''Perfect cross or swan in flight''
        ''bright_cross'' 6 ''cross_symmetric''),
     (''Gemini'', entry ''Gem'' ''Geminorum''
        ''Twin brothers Castor and Pollux''
        ''Brotherhood, duality, eternal bond''
        ''Twin parallel figures, two bright stars''
        ''two_bright_stars'' 8 ''parallel_twins''),
     (''Leo'', entry ''Leo'' ''Leonis''
        ''Nemean lion slain by Hercules''
        ''Courage, royalty, invincibility''
        ''Sickle for head/mane, triangle for body''
        ''very_bright'' 9 ''sickle_triangle''),
     (''Lyra'', entry ''Lyr'' ''Lyrae''
        (''Orpheus'' @ [CHR 0x27] @ ''s lyre'')
        ''Music, art, lost love''
        ''Compact parallelogram, small but bright''
        ''extremely_bright_star'' 5 ''compact_parallelogram''),
     (''Orion'', entry ''Ori'' ''Orionis''
        ''Great hunter with belt and sword''
        ''Hunting prowess, tragic death, grandeur''
        ''Hourglass with distinctive belt, large and commanding''
        ''multiple_bright_stars'' 10 ''hourglass_belt''),
     (''Pegasus'', entry ''Peg'' ''Pegasi''
        (''Winged horse sprung from Medusa'' @ [CHR 0x27] @ ''s blood'')
        ''Inspiration, flight, poetic achievement''
        ''Great square with extended lines for head/legs''
        ''bright_square'' 9 ''square_extended''),
     (''Perseus'', entry ''Per'' ''Persei''
        ''Hero who slew Medusa''
        ''Heroism, clever strategy, reflection''
        (''Curved chain from Cassiopeia, Medusa'' @ [CHR 0x27] @ ''s head'')
        ''bright'' 8 ''curved_chain''),
     (''Sagittarius'', entry ''Sgr'' ''Sagittarii''
        ''Centaur archer aiming at Scorpius''
        ''Aim, philosophy, adventure''
        ''Teapot shape, pointing toward galactic center''
        ''bright'' 10 ''teapot''),
     (''Scorpius'', entry ''Sco'' ''Scorpii''
        ''Scorpion that killed Orion''
        ''Danger, deadly beauty, revenge''
        ''Curved tail with stinger, bright red heart''
        ''very_bright_red'' 12 ''curved_tail''),
     (''Taurus'', entry ''Tau'' ''Tauri''
        ''Bull form of Zeus, Pleiades sisters''
        ''Strength, passion, pursuit''
        ''V-shaped face, Pleiades cluster''
        ''bright_with_cluster'' 8 ''v_shaped''),
     (''Ursa Major'', entry ''UMa'' ''Ursae Majoris''
        ''Great bear, transformed Callisto, Big Dipper''
        ''Transformation, eternal circling, guidance''
        ''Dipper shape, circumpolar, never setting''
        ''bright'' 7 ''dipper''),
     (''Ursa Minor'', entry ''UMi'' ''Ursae Minoris''
        ''Little bear, contains North Star''
        ''Guidance, steadfastness, eternal pivot''
        ''Small dipper, Polaris at tail''
        ''bright_pole_star'' 7 ''small_dipper''),
     (''Virgo'', entry ''Vir'' ''Virginis''
        ''Maiden of harvest, justice, or purity''
        ''Harvest, innocence, justice''
        ''Y-shaped figure, large sprawling''
        ''very_bright'' 9 ''y_shaped'')]"

section \<open>The composition tool\<close>

datatype ResponseFormat = MARKDOWN | JSON

record ConstellationCompositionInput =
  constellation_name :: string
  canvas_width :: "int option"
  canvas_height :: "int option"
  include_mythology :: bool
  response_format :: ResponseFormat

text \<open>
  The field validator \<^verbatim>\<open>validate_constellation\<close>: the first catalog name equal to \<open>v\<close>
  up to case, else the name of the first entry whose abbreviation is equal to \<open>v\<close> up to
  case, else \<open>v\<close> itself.
\<close>

definition validate_constellation :: "string \<Rightarrow> string" where
  "validate_constellation v =
    (case find (\<lambda>name. lower v = lower name) (map fst CONSTELLATIONS) of
       Some name \<Rightarrow> name
     | None \<Rightarrow>
        (case find (\<lambda>(name, data). lower v = lower (abbr data)) CONSTELLATIONS of
           Some (name, data) \<Rightarrow> name
         | None \<Rightarrow> v))"

text \<open>
  The stripping of the setting \<^verbatim>\<open>str_strip_whitespace\<close> of the input model.  It is done
  by the validation library, not by \<^verbatim>\<open>str.strip\<close>, and removes the characters with the
  Unicode property \<^verbatim>\<open>White_Space\<close> from both ends: tab, line feed, vertical tab, form feed,
  carriage return, the space, the next-line control 0x85 and the no-break space 0xA0, but
  not the four separators 0x1C to 0x1F.
\<close>

definition white_space :: "char \<Rightarrow> bool" where
  "white_space c \<longleftrightarrow>
     c \<in> set [CHR 0x09, CHR 0x0A, CHR 0x0B, CHR 0x0C, CHR 0x0D, CHR 0x20, CHR 0x85, CHR 0xA0]"

definition trim :: "string \<Rightarrow> string" where
  "trim s = rev (dropWhile white_space (rev (dropWhile white_space s)))"

text \<open>
  Building the input model from the caller's arguments: the name is stripped
  (\<^verbatim>\<open>str_strip_whitespace\<close>), its length must be from 3 to 50, each canvas dimension is
  either absent or from 512 to 4096, and the field validator then rewrites the name.
\<close>

definition in_canvas_range :: "int option \<Rightarrow> bool" where
  "in_canvas_range d = (case d of None \<Rightarrow> True | Some n \<Rightarrow> 512 \<le> n \<and> n \<le> 4096)"

definition make_input ::
  "string \<Rightarrow> int option \<Rightarrow> int option \<Rightarrow> bool \<Rightarrow> ResponseFormat
     \<Rightarrow> py_error + ConstellationCompositionInput" where
  "make_input name w h inc fmt =
    (let v = trim name in
     if length v < 3 \<or> length v > 50 \<or> \<not> in_canvas_range w \<or> \<not> in_canvas_range h
     then Inl ValidationError
     else Inr \<lparr>constellation_name = validate_constellation v, canvas_width = w,
               canvas_height = h, include_mythology = inc, response_format = fmt\<rparr>)"

text \<open>
  What the tool returns is a string: the error message, or the rendering of a result.
  The renderers (\<^verbatim>\<open>json.dumps\<close>, \<^verbatim>\<open>format_composition_markdown\<close>) are not modelled; a
  result is the tuple of values handed to the renderer.
\<close>

datatype tool_output =
  ErrorText string
| JsonResult string string "int option" "int option" CompositionParameters
| MarkdownResult string metadata CompositionParameters

text \<open>
  \<^verbatim>\<open>generate_constellation_composition(params)\<close>.  The argument \<open>fetch\<close> is the answer of
  the network to \<^verbatim>\<open>fetch_constellation_data\<close> for an abbreviation: a feature or nothing.
\<close>

definition generate_constellation_composition ::
  "'g rng \<Rightarrow> 'g \<Rightarrow> (string \<Rightarrow> 'geo option) \<Rightarrow> ConstellationCompositionInput
     \<Rightarrow> (py_error + tool_output) \<times> 'g" where
  "generate_constellation_composition R g fetch params =
    (let name = constellation_name params in
     case map_of CONSTELLATIONS name of
       None \<Rightarrow>
         (let available = join '', '' (sort (map fst CONSTELLATIONS))
          in (Inr (ErrorText (''Error: Constellation '' @ [CHR 0x27] @ name @ [CHR 0x27]
                               @ '' not found. Available constellations: '' @ available)), g))
     | Some metadata \<Rightarrow>
         (let abbr' = abbr metadata;
              geometry_data = fetch abbr';
              (composition, g') =
                 map_constellation_to_composition R g name metadata geometry_data
                   (canvas_width params) (canvas_height params) (include_mythology params)
          in case composition of
               Inl e \<Rightarrow> (Inl e, g')
             | Inr c \<Rightarrow>
                 (if response_format params = JSON
                  then (Inr (JsonResult name abbr' (canvas_width params)
                               (canvas_height params) c), g')
                  else (Inr (MarkdownResult name metadata c), g'))))"

text \<open>
  A call of the tool, as the server framework makes it: the caller's arguments are
  validated into the input model, and the tool runs on the model when this succeeds.
  A validation error is reported to the caller, and the tool does not run.
\<close>

definition call_generate_constellation_composition ::
  "'g rng \<Rightarrow> 'g \<Rightarrow> (string \<Rightarrow> 'geo option) \<Rightarrow> string \<Rightarrow> int option \<Rightarrow> int option \<Rightarrow> bool
     \<Rightarrow> ResponseFormat \<Rightarrow> (py_error + tool_output) \<times> 'g" where
  "call_generate_constellation_composition R g fetch name w h inc fmt =
    (case make_input name w h inc fmt of
       Inl e \<Rightarrow> (Inl e, g)
     | Inr params \<Rightarrow> generate_constellation_composition R g fetch params)"

section \<open>Notions of the specification\<close>

text \<open>
  The invariant of a focal point: both coordinates in the unit interval and a positive
  weight.
\<close>

definition valid_point :: "focal_point \<Rightarrow> bool" where
  "valid_point p \<longleftrightarrow>
     0 \<le> fp_x p \<and> fp_x p \<le> 1 \<and> 0 \<le> fp_y p \<and> fp_y p \<le> 1 \<and> 0 < fp_weight p"

text \<open>
  The weighted average of a coordinate \<open>f\<close> over a sequence of focal points, as the
  specification writes it: the sum of \<open>f\<^sub>i \<cdot> w\<^sub>i\<close> divided by the sum of the \<open>w\<^sub>i\<close>.
\<close>

definition weighted_average :: "(focal_point \<Rightarrow> real) \<Rightarrow> focal_point list \<Rightarrow> real" where
  "weighted_average f ps =
     (\<Sum>i<length ps. f (ps ! i) * fp_weight (ps ! i)) / (\<Sum>i<length ps. fp_weight (ps ! i))"

text \<open>
  Name resolution, as the specification writes it: a name resolves when it is equal, up to
  case, to the name or to the abbreviation of some catalog record.
\<close>

definition resolves :: "string \<Rightarrow> bool" where
  "resolves v \<longleftrightarrow>
     list_ex (\<lambda>(name, data). lower v = lower name \<or> lower v = lower (abbr data))
       CONSTELLATIONS"

section \<open>A concrete generator\<close>

text \<open>
  The first eighteen draws of CPython's generator after \<^verbatim>\<open>random.seed(42)\<close>, which are
  the draws one call of the \<^verbatim>\<open>dispersed\<close> branch consumes.  Each is a multiple of
  \<open>2\<^sup>-\<^sup>5\<^sup>3\<close>.
\<close>

definition seed42_draws :: "real list" where
  "seed42_draws = map (\<lambda>n. real_of_int n / 2 ^ 53)
     [5759444582531269, 225276855802115, 2477243871446254,
      2010503594304263, 6633542971356286, 6095167118799258,
      8036039137326224, 783075388467729, 3800333899828131,
      268389492715941, 1969315803709096, 4551835774384025,
      239014766360326, 1790970339079230, 5853638623635490,
      4908396497966746, 1985552606559604, 5307633428651526]"

text \<open>
  A generator that replays this table: its state is the number of draws made since the
  last seeding, seeding rewinds to the start, and the draws past the table are 0.  It
  stands for the library generator in the concrete instances below, where 42 is the only
  seed.
\<close>

definition replay_rng :: "nat rng" where
  "replay_rng =
     \<lparr>rng_seed = (\<lambda>n. 0),
      rng_random = (\<lambda>k. (if k < length seed42_draws then seed42_draws ! k else 0, Suc k))\<rparr>"

section \<open>Basic facts\<close>

lemma str_in_sublist: "str_in sub s \<longleftrightarrow> sublist sub s"
  by (induction s) (auto simp: sublist_Cons_right)

lemma split_nonempty: "split sep s \<noteq> []"
  by (induction s) (simp_all add: Let_def)

lemma py_sum_sum_list: "py_sum xs = sum_list xs"
proof -
  have "foldl (+) a xs = a + sum_list xs" for a :: real
    by (induction xs arbitrary: a) (simp_all add: algebra_simps)
  from this [of 0] show ?thesis by (simp add: py_sum_def)
qed

lemma sum_list_weights_pos:
  fixes xs :: "real list"
  assumes "xs \<noteq> []" and "\<forall>x\<in>set xs. 0 < x"
  shows "0 < sum_list xs"
  using assms by (induction xs) (auto intro: add_pos_nonneg sum_list_nonneg less_imp_le)

lemma sum_list_map_nth:
  fixes f :: "'a \<Rightarrow> real"
  shows "sum_list (map f xs) = (\<Sum>i<length xs. f (xs ! i))"
proof -
  have "sum_list (map f xs) = (\<Sum>i = 0..<length (map f xs). map f xs ! i)"
    by (rule sum_list_sum_nth)
  also have "\<dots> = (\<Sum>i<length xs. f (xs ! i))"
    by (simp add: atLeast0LessThan)
  finally show ?thesis .
qed

subsection \<open>The replayed generator keeps the contract\<close>

lemma seed42_draws_unit: "\<forall>r\<in>set seed42_draws. 0 \<le> r \<and> r < 1"
  by (simp add: seed42_draws_def)

lemma rng_unit_replay: "rng_unit replay_rng"
  using seed42_draws_unit by (simp add: rng_unit_def replay_rng_def)

subsection \<open>The two loops of the focal-point generator\<close>

lemma curved_step_append: "curved_step n i ps = ps @ curved_step n i []"
  by (simp add: curved_step_def Let_def)

lemma fold_curved_step:
  "fold (curved_step n) xs acc = acc @ concat (map (\<lambda>i. curved_step n i []) xs)"
proof (induction xs arbitrary: acc)
  case Nil
  show ?case by simp
next
  case (Cons i xs)
  show ?case
    by (simp add: Cons.IH) (subst curved_step_append, simp)
qed

lemma curved_point_valid:
  assumes "i \<le> 6"
  shows "list_all valid_point (curved_step 7 i [])"
proof -
  let ?t = "real i / 6"
  have t: "0 \<le> ?t" "?t \<le> 1" using assms by simp_all
  have "0 \<le> ?t * pi" using t by simp
  moreover have "?t * pi \<le> pi" using t pi_ge_zero mult_right_mono [of ?t 1 pi] by simp
  ultimately have s0: "0 \<le> sin (?t * pi)" by (rule sin_ge_zero)
  have s1: "sin (?t * pi) \<le> 1" by (rule sin_le_one)
  have x0: "0 \<le> 0.2 + 0.6 * ?t" using t by linarith
  have x1: "0.2 + 0.6 * ?t \<le> 1" using t by linarith
  have y0: "0 \<le> 0.5 + 0.2 * sin (?t * pi)" using s0 by linarith
  have y1: "0.5 + 0.2 * sin (?t * pi) \<le> 1" using s1 by linarith
  show ?thesis
    using x0 x1 y0 y1 by (simp add: curved_step_def valid_point_def Let_def)
qed

lemma curved_points_valid: "list_all valid_point (fold (curved_step 7) [0..<7] [])"
proof -
  have "\<forall>i\<in>set [0..<7]. list_all valid_point (curved_step 7 i [])"
    using curved_point_valid by auto
  then show ?thesis
    unfolding fold_curved_step by (simp add: list_all_iff del: upt.simps)
qed

lemma curved_points_length: "length (fold (curved_step n) xs acc) = length acc + length xs"
  by (induction xs arbitrary: acc) (simp_all add: curved_step_def Let_def)

lemma dispersed_step_valid:
  assumes "rng_unit R" and "list_all valid_point ps"
  shows "list_all valid_point (fst (dispersed_step R i (ps, g)))"
proof -
  obtain r1 g1 where d1: "rng_random R g = (r1, g1)" by (cases "rng_random R g")
  obtain r2 g2 where d2: "rng_random R g1 = (r2, g2)" by (cases "rng_random R g1")
  obtain r3 g3 where d3: "rng_random R g2 = (r3, g3)" by (cases "rng_random R g2")
  have r1: "0 \<le> r1" "r1 < 1"
    using assms(1) d1 unfolding rng_unit_def by (metis fst_conv)+
  have r2: "0 \<le> r2" "r2 < 1"
    using assms(1) d2 unfolding rng_unit_def by (metis fst_conv)+
  have r3: "0 \<le> r3" "r3 < 1"
    using assms(1) d3 unfolding rng_unit_def by (metis fst_conv)+
  show ?thesis
    using assms(2) r1 r2 r3 by (simp add: dispersed_step_def d1 d2 d3 valid_point_def)
qed

lemma fold_dispersed_valid:
  assumes "rng_unit R"
  shows "list_all valid_point ps \<Longrightarrow>
         list_all valid_point (fst (fold (dispersed_step R) xs (ps, g)))"
proof (induction xs arbitrary: ps g)
  case Nil
  then show ?case by simp
next
  case (Cons i xs)
  obtain ps' g' where st: "dispersed_step R i (ps, g) = (ps', g')"
    by (cases "dispersed_step R i (ps, g)")
  have "list_all valid_point ps'"
    using dispersed_step_valid [OF assms Cons.prems, of i g] st by simp
  then show ?case using Cons.IH [of ps' g'] st by simp
qed

lemma fold_dispersed_length:
  "length (fst (fold (dispersed_step R) xs (ps, g))) = length ps + length xs"
proof (induction xs arbitrary: ps g)
  case Nil
  show ?case by simp
next
  case (Cons i xs)
  obtain ps' g' where st: "dispersed_step R i (ps, g) = (ps', g')"
    by (cases "dispersed_step R i (ps, g)")
  have "length ps' = Suc (length ps)"
    using st by (auto simp: dispersed_step_def split: prod.splits)
  then show ?case using Cons.IH [of ps' g'] st by simp
qed

subsection \<open>The focal-point generator\<close>

lemma gfp_valid:
  assumes "rng_unit R"
  shows "list_all valid_point (fst (generate_focal_points R g b s w h))"
  unfolding generate_focal_points_def
  using curved_points_valid fold_dispersed_valid [OF assms, of "[]" "[0..<6]" "rng_seed R 42"]
  by (simp add: valid_point_def del: upt.simps)

lemma gfp_nonempty: "fst (generate_focal_points R g b s w h) \<noteq> []"
proof -
  have c: "length (fold (curved_step 7) [0..<7] []) = 7"
    by (simp add: curved_points_length del: upt.simps)
  have d: "length (fst (fold (dispersed_step R) [0..<6] ([], rng_seed R 42))) = 6"
    by (simp add: fold_dispersed_length del: upt.simps)
  have c': "fold (curved_step 7) [0..<7] [] \<noteq> []" using c by auto
  have d': "fst (fold (dispersed_step R) [0..<6] ([], rng_seed R 42)) \<noteq> []" using d by auto
  show ?thesis
    unfolding generate_focal_points_def using c' d' by (simp del: upt.simps)
qed

text \<open>The points do not depend on the generator state before the call, nor on the canvas.\<close>

lemma gfp_points_indep:
  "fst (generate_focal_points R g b s w h) = fst (generate_focal_points R g' b s w' h')"
  by (simp add: generate_focal_points_def del: upt.simps)

lemma gfp_total_weight_pos:
  assumes "rng_unit R"
  shows "0 < py_sum (map fp_weight (fst (generate_focal_points R g b s w h)))"
proof -
  let ?ps = "fst (generate_focal_points R g b s w h)"
  have "\<forall>x\<in>set (map fp_weight ?ps). 0 < x"
    using gfp_valid [OF assms, of g b s w h] by (auto simp: list_all_iff valid_point_def)
  moreover have "map fp_weight ?ps \<noteq> []" using gfp_nonempty [of R g b s w h] by simp
  ultimately show ?thesis unfolding py_sum_sum_list by (rule sum_list_weights_pos [rotated])
qed

subsection \<open>The balance calculator and the mapping engine\<close>

lemma calculate_balance_Inr:
  assumes "py_sum (map fp_weight ps) \<noteq> 0"
  shows "\<exists>bal. calculate_balance s ps = Inr bal \<and>
           com_x (center_of_mass bal) =
             py_sum (map (\<lambda>p. fp_x p * fp_weight p) ps) / py_sum (map fp_weight ps) \<and>
           com_y (center_of_mass bal) =
             py_sum (map (\<lambda>p. fp_y p * fp_weight p) ps) / py_sum (map fp_weight ps)"
  using assms by (simp add: calculate_balance_def Let_def)

text \<open>
  The result of the mapping engine, field by field, when the balance calculator succeeds.
\<close>

lemma map_result:
  assumes "generate_focal_points R g (get_or (brightness_profile md) ''moderate'')
             (get_or (shape md) ''dispersed'') w h = (ps, g')"
    and "calculate_balance (get_or (shape md) ''dispersed'') ps = Inr bal"
  shows "map_constellation_to_composition R g n md geo w h inc =
     (Inr \<lparr>focal_points = ps,
           visual_flow = determine_visual_flow (get_or (shape md) ''dispersed'') geo,
           balance = bal,
           spatial_distribution =
             determine_spatial_distribution (get_or (shape md) ''dispersed'')
               (get_or (star_count_visual md) 5),
           mythology_themes = (if inc then extract_mythology_themes md else []),
           suggested_elements =
             generate_suggested_elements md (get_or (shape md) ''dispersed'')
               (get_or (brightness_profile md) ''moderate'')\<rparr>, g')"
  using assms by (simp add: map_constellation_to_composition_def Let_def)

lemma map_total:
  assumes "rng_unit R"
  shows "\<exists>c. fst (map_constellation_to_composition R g n md geo w h inc) = Inr c \<and>
           focal_points c =
             fst (generate_focal_points R g (get_or (brightness_profile md) ''moderate'')
                    (get_or (shape md) ''dispersed'') w h) \<and>
           calculate_balance (get_or (shape md) ''dispersed'') (focal_points c)
             = Inr (balance c) \<and>
           mythology_themes c = (if inc then extract_mythology_themes md else [])"
proof -
  let ?b = "get_or (brightness_profile md) ''moderate''"
  let ?s = "get_or (shape md) ''dispersed''"
  obtain ps g' where gen: "generate_focal_points R g ?b ?s w h = (ps, g')"
    by (cases "generate_focal_points R g ?b ?s w h")
  have "0 < py_sum (map fp_weight ps)"
    using gfp_total_weight_pos [OF assms, of g ?b ?s w h] gen by simp
  then obtain bal where bal: "calculate_balance ?s ps = Inr bal"
    using calculate_balance_Inr [of ps ?s] by auto
  show ?thesis
    using map_result [OF gen bal, of n geo inc] gen bal by simp
qed

lemma determine_visual_flow_indep:
  "determine_visual_flow s geo = determine_visual_flow s geo'"
  by (simp add: determine_visual_flow_def)

lemma map_indep:
  "fst (map_constellation_to_composition R g n md geo w h inc)
   = fst (map_constellation_to_composition R g' n' md geo' w' h' inc)"
proof -
  let ?b = "get_or (brightness_profile md) ''moderate''"
  let ?s = "get_or (shape md) ''dispersed''"
  obtain ps g1 where gen: "generate_focal_points R g ?b ?s w h = (ps, g1)"
    by (cases "generate_focal_points R g ?b ?s w h")
  obtain ps' g1' where gen': "generate_focal_points R g' ?b ?s w' h' = (ps', g1')"
    by (cases "generate_focal_points R g' ?b ?s w' h'")
  have same: "ps' = ps"
    using gfp_points_indep [of R g ?b ?s w h g' w' h'] gen gen' by simp
  show ?thesis
    using determine_visual_flow_indep [of ?s geo geo']
    by (simp add: map_constellation_to_composition_def Let_def gen gen' same
             split: sum.splits)
qed

text \<open>
  The six points of the \<^verbatim>\<open>dispersed\<close> branch under the replayed generator, from any state
  before the call.
\<close>

lemma dispersed_points_replay:
  "fst (generate_focal_points replay_rng k ''moderate'' ''dispersed_cascade'' w h) =
     [\<lparr>fp_x = 0.2 + 5759444582531269 / 2 ^ 53 * 0.6,
       fp_y = 0.2 + 225276855802115 / 2 ^ 53 * 0.6,
       fp_weight = 0.2 + 2477243871446254 / 2 ^ 53 * 0.2\<rparr>,
      \<lparr>fp_x = 0.2 + 2010503594304263 / 2 ^ 53 * 0.6,
       fp_y = 0.2 + 6633542971356286 / 2 ^ 53 * 0.6,
       fp_weight = 0.2 + 6095167118799258 / 2 ^ 53 * 0.2\<rparr>,
      \<lparr>fp_x = 0.2 + 8036039137326224 / 2 ^ 53 * 0.6,
       fp_y = 0.2 + 783075388467729 / 2 ^ 53 * 0.6,
       fp_weight = 0.2 + 3800333899828131 / 2 ^ 53 * 0.2\<rparr>,
      \<lparr>fp_x = 0.2 + 268389492715941 / 2 ^ 53 * 0.6,
       fp_y = 0.2 + 1969315803709096 / 2 ^ 53 * 0.6,
       fp_weight = 0.2 + 4551835774384025 / 2 ^ 53 * 0.2\<rparr>,
      \<lparr>fp_x = 0.2 + 239014766360326 / 2 ^ 53 * 0.6,
       fp_y = 0.2 + 1790970339079230 / 2 ^ 53 * 0.6,
       fp_weight = 0.2 + 5853638623635490 / 2 ^ 53 * 0.2\<rparr>,
      \<lparr>fp_x = 0.2 + 4908396497966746 / 2 ^ 53 * 0.6,
       fp_y = 0.2 + 1985552606559604 / 2 ^ 53 * 0.6,
       fp_weight = 0.2 + 5307633428651526 / 2 ^ 53 * 0.2\<rparr>]"
  by (simp add: generate_focal_points_def dispersed_step_def replay_rng_def seed42_draws_def
        upt_conv_Cons)

section \<open>Properties of the focal-point generator\<close>

text \<open>
  Claim C6.  For every brightness tag and every shape tag, the focal-point generator returns
  at least one point, and every point it returns has both coordinates in the unit interval
  and a positive weight; this covers the sine-curve branch and, for a generator whose draws
  lie in the half-open unit interval, the seeded pseudo-random branch.  Hence for every
  record (with or without the optional keys) the mapping returns a composition with at
  least one focal point, all of them of that kind.
\<close>

theorem focal_points_in_unit_square:
  assumes "rng_unit R"
  shows "fst (generate_focal_points R g b s w h) \<noteq> [] \<and>
         (\<forall>p\<in>set (fst (generate_focal_points R g b s w h)).
             0 \<le> fp_x p \<and> fp_x p \<le> 1 \<and> 0 \<le> fp_y p \<and> fp_y p \<le> 1 \<and> 0 < fp_weight p) \<and>
         (\<exists>c. fst (map_constellation_to_composition R g n md geo w h inc) = Inr c \<and>
              focal_points c \<noteq> [] \<and>
              (\<forall>p\<in>set (focal_points c).
                  0 \<le> fp_x p \<and> fp_x p \<le> 1 \<and> 0 \<le> fp_y p \<and> fp_y p \<le> 1 \<and> 0 < fp_weight p))"
proof -
  have valid: "\<forall>p\<in>set (fst (generate_focal_points R g' b' s' w' h')).
                 0 \<le> fp_x p \<and> fp_x p \<le> 1 \<and> 0 \<le> fp_y p \<and> fp_y p \<le> 1 \<and> 0 < fp_weight p"
    for g' b' s' w' h'
    using gfp_valid [OF assms, of g' b' s' w' h'] by (simp add: list_all_iff valid_point_def)
  obtain c where c: "fst (map_constellation_to_composition R g n md geo w h inc) = Inr c"
    and fp: "focal_points c =
               fst (generate_focal_points R g (get_or (brightness_profile md) ''moderate'')
                      (get_or (shape md) ''dispersed'') w h)"
    using map_total [OF assms, of g n md geo w h inc] by blast
  have "focal_points c \<noteq> []" unfolding fp by (rule gfp_nonempty)
  moreover have "\<forall>p\<in>set (focal_points c).
      0 \<le> fp_x p \<and> fp_x p \<le> 1 \<and> 0 \<le> fp_y p \<and> fp_y p \<le> 1 \<and> 0 < fp_weight p"
    unfolding fp by (rule valid)
  ultimately show ?thesis using c valid gfp_nonempty [of R g b s w h] by blast
qed

text \<open>
  The instance for the catalog record Aquarius, whose shape tag \<^verbatim>\<open>dispersed_cascade\<close>
  selects the pseudo-random branch, with the replayed generator.
\<close>

theorem focal_points_in_unit_square_witness:
  "rng_unit replay_rng \<and>
   length (fst (generate_focal_points replay_rng 0 ''moderate'' ''dispersed_cascade''
                  (Some 1024) (Some 1024))) = 6 \<and>
   list_all valid_point
     (fst (generate_focal_points replay_rng 0 ''moderate'' ''dispersed_cascade''
             (Some 1024) (Some 1024))) \<and>
   (\<exists>c. fst (map_constellation_to_composition replay_rng 0 ''Aquarius''
          (entry ''Aqr'' ''Aquarii'' ''Water bearer pouring from celestial jar''
             ''Flow, abundance, giving'' ''Cascading downward flow, dispersed''
             ''moderate'' 8 ''dispersed_cascade'')
          (None :: unit option) (Some 1024) (Some 1024) True) = Inr c \<and>
        focal_points c \<noteq> [] \<and> list_all valid_point (focal_points c))"
proof -
  have "length (fst (generate_focal_points replay_rng 0 ''moderate'' ''dispersed_cascade''
                       (Some 1024) (Some 1024))) = 6"
    by (simp add: generate_focal_points_def fold_dispersed_length del: upt.simps)
  then show ?thesis
    using focal_points_in_unit_square [OF rng_unit_replay,
        of 0 "''moderate''" "''dispersed_cascade''" "Some 1024" "Some 1024" "''Aquarius''"
        "entry ''Aqr'' ''Aquarii'' ''Water bearer pouring from celestial jar''
               ''Flow, abundance, giving'' ''Cascading downward flow, dispersed''
               ''moderate'' 8 ''dispersed_cascade''"
        "None :: unit option" True]
      rng_unit_replay
    by (simp add: list_all_iff valid_point_def)
qed

text \<open>
  Claim C10.  The division that computes the centre of mass never divides by zero: for
  every brightness tag and every shape tag the generator returns a non-empty list of
  points of positive weight, their total weight is positive, and the balance calculator
  returns a balance, not \<^verbatim>\<open>ZeroDivisionError\<close>.
\<close>

theorem centroid_division_defined:
  assumes "rng_unit R"
  shows "fst (generate_focal_points R g b s w h) \<noteq> [] \<and>
         (\<forall>p\<in>set (fst (generate_focal_points R g b s w h)). 0 < fp_weight p) \<and>
         0 < py_sum (map fp_weight (fst (generate_focal_points R g b s w h))) \<and>
         (\<exists>bal. calculate_balance s (fst (generate_focal_points R g b s w h)) = Inr bal)"
proof -
  let ?ps = "fst (generate_focal_points R g b s w h)"
  have pos: "0 < py_sum (map fp_weight ?ps)" by (rule gfp_total_weight_pos [OF assms])
  then have "\<exists>bal. calculate_balance s ?ps = Inr bal"
    using calculate_balance_Inr [of ?ps s] by auto
  moreover have "\<forall>p\<in>set ?ps. 0 < fp_weight p"
    using gfp_valid [OF assms, of g b s w h] by (simp add: list_all_iff valid_point_def)
  ultimately show ?thesis using pos gfp_nonempty [of R g b s w h] by blast
qed

text \<open>The instance for the tags of Scorpius, which select the sine-curve branch.\<close>

theorem centroid_division_defined_witness:
  "rng_unit replay_rng \<and>
   list_all (\<lambda>p. 0 < fp_weight p)
     (fst (generate_focal_points replay_rng 0 ''very_bright_red'' ''curved_tail''
             (Some 1024) (Some 1024))) \<and>
   0 < py_sum (map fp_weight (fst (generate_focal_points replay_rng 0 ''very_bright_red''
                                     ''curved_tail'' (Some 1024) (Some 1024)))) \<and>
   (\<exists>bal. calculate_balance ''curved_tail''
             (fst (generate_focal_points replay_rng 0 ''very_bright_red'' ''curved_tail''
                     (Some 1024) (Some 1024))) = Inr bal)"
  using centroid_division_defined [OF rng_unit_replay,
      of 0 "''very_bright_red''" "''curved_tail''" "Some 1024" "Some 1024"]
    rng_unit_replay
  by (simp add: list_all_iff)

text \<open>The guard is not idle: on a list without points the calculator does fail.\<close>

lemma calculate_balance_empty: "calculate_balance s [] = Inl ZeroDivisionError"
  by (simp add: calculate_balance_def py_sum_def)

text \<open>
  Claim C8.  The rules are tried in the documented order and the first match wins: when
  the shape tag contains both \<^verbatim>\<open>square\<close> and \<^verbatim>\<open>triangular\<close> and no earlier rule matches
  the two tags, the result is the four corner points of weight 0.3 of the \<^verbatim>\<open>square\<close>
  rule.
\<close>

theorem square_rule_before_triangular:
  assumes "str_in ''square'' s" and "str_in ''triangular'' s"
    and "\<not> str_in ''two_bright_stars'' b" and "\<not> str_in ''extremely_bright_star'' b"
    and "\<not> str_in ''bright_cross'' b" and "\<not> str_in ''cross'' s"
    and "\<not> str_in ''belt'' s" and "\<not> str_in ''hourglass'' s"
    and "\<not> str_in ''w_zigzag'' s" and "\<not> str_in ''dipper'' s"
  shows "fst (generate_focal_points R g b s w h) =
           [\<lparr>fp_x = 0.35, fp_y = 0.35, fp_weight = 0.3\<rparr>,
            \<lparr>fp_x = 0.65, fp_y = 0.35, fp_weight = 0.3\<rparr>,
            \<lparr>fp_x = 0.65, fp_y = 0.65, fp_weight = 0.3\<rparr>,
            \<lparr>fp_x = 0.35, fp_y = 0.65, fp_weight = 0.3\<rparr>]"
  using assms by (simp add: generate_focal_points_def)

theorem square_rule_before_triangular_witness:
  "str_in ''square'' ''triangular_square'' \<and> str_in ''triangular'' ''triangular_square'' \<and>
   fst (generate_focal_points replay_rng 0 ''moderate'' ''triangular_square''
          (Some 1024) (Some 1024)) =
     [\<lparr>fp_x = 0.35, fp_y = 0.35, fp_weight = 0.3\<rparr>,
      \<lparr>fp_x = 0.65, fp_y = 0.35, fp_weight = 0.3\<rparr>,
      \<lparr>fp_x = 0.65, fp_y = 0.65, fp_weight = 0.3\<rparr>,
      \<lparr>fp_x = 0.35, fp_y = 0.65, fp_weight = 0.3\<rparr>]"
  using square_rule_before_triangular [of "''triangular_square''" "''moderate''"
      replay_rng 0 "Some 1024" "Some 1024"]
  by simp

text \<open>
  Claim C3.  The mapping is deterministic, the pseudo-random branch included: the branch
  seeds the generator with the constant 42 before it draws, so the points do not depend on
  the state in which earlier calls left the generator.  Two calls in a row, the second
  one starting from the state the first one leaves, return the same points, and the same
  composition.
\<close>

theorem focal_points_deterministic:
  "fst (generate_focal_points R g b s w h) = fst (generate_focal_points R g' b s w h) \<and>
   fst (generate_focal_points R (snd (generate_focal_points R g b s w h)) b s w h)
     = fst (generate_focal_points R g b s w h) \<and>
   fst (map_constellation_to_composition R
          (snd (map_constellation_to_composition R g n md geo cw ch inc)) n md geo cw ch inc)
     = fst (map_constellation_to_composition R g n md geo cw ch inc)"
  using gfp_points_indep [of R g b s w h g' w h]
    gfp_points_indep [of R "snd (generate_focal_points R g b s w h)" b s w h g w h]
    map_indep [of R "snd (map_constellation_to_composition R g n md geo cw ch inc)"
                 n md geo cw ch inc g n geo cw ch]
  by simp

text \<open>
  The instance for a \<^verbatim>\<open>dispersed\<close> shape tag and the replayed generator, from the fresh
  state and from the state after five draws.
\<close>

theorem focal_points_deterministic_witness:
  "fst (generate_focal_points replay_rng 0 ''moderate'' ''dispersed_cascade''
          (Some 1024) (Some 1024))
   = fst (generate_focal_points replay_rng 5 ''moderate'' ''dispersed_cascade''
            (Some 1024) (Some 1024))"
  using focal_points_deterministic [of replay_rng 0 "''moderate''" "''dispersed_cascade''"
      "Some 1024" "Some 1024" 5 "''Aquarius''"
      "entry ''Aqr'' ''Aquarii'' ''Water bearer pouring from celestial jar''
             ''Flow, abundance, giving'' ''Cascading downward flow, dispersed''
             ''moderate'' 8 ''dispersed_cascade''"
      "None :: unit option" "Some 1024" "Some 1024" True]
  by simp

section \<open>Properties of the mapping engine\<close>

text \<open>
  Claim C2.  The composition depends only on the record and on the mythology flag: it is
  the same for all canvas widths and heights (those from 512 to 4096 among them), for
  every value of the supplementary geometry, absent or present, for every name passed
  along with the record, and for every state of the generator before the call.
\<close>

theorem composition_depends_on_record_and_flag_only:
  "fst (map_constellation_to_composition R g n md geo w h inc)
   = fst (map_constellation_to_composition R g' n' md geo' w' h' inc)"
  by (rule map_indep)

theorem composition_depends_on_record_and_flag_only_witness:
  "fst (map_constellation_to_composition replay_rng 0 ''Gemini''
          (entry ''Gem'' ''Geminorum'' ''Twin brothers Castor and Pollux''
             ''Brotherhood, duality, eternal bond''
             ''Twin parallel figures, two bright stars'' ''two_bright_stars'' 8
             ''parallel_twins'')
          (None :: unit option) (Some 512) (Some 512) True)
   = fst (map_constellation_to_composition replay_rng 7 ''Gemini''
          (entry ''Gem'' ''Geminorum'' ''Twin brothers Castor and Pollux''
             ''Brotherhood, duality, eternal bond''
             ''Twin parallel figures, two bright stars'' ''two_bright_stars'' 8
             ''parallel_twins'')
          (Some ()) (Some 4096) (Some 2048) True)"
  by (rule composition_depends_on_record_and_flag_only)

text \<open>
  Claim C5.  For every record, the mapping returns at least one focal point, the total
  weight of the returned focal points is positive, and the centre of mass in the returned
  balance is the weighted average of exactly these focal points, in each coordinate: the
  sum of the products of coordinate and weight, divided by this positive total weight.
  (Floats are modelled by real numbers, so the two are equal, not only close.)
\<close>

theorem center_of_mass_is_weighted_average:
  assumes "rng_unit R"
  shows "\<exists>c. fst (map_constellation_to_composition R g n md geo w h inc) = Inr c \<and>
           focal_points c \<noteq> [] \<and>
           0 < (\<Sum>i<length (focal_points c). fp_weight (focal_points c ! i)) \<and>
           com_x (center_of_mass (balance c)) = weighted_average fp_x (focal_points c) \<and>
           com_y (center_of_mass (balance c)) = weighted_average fp_y (focal_points c)"
proof -
  let ?s = "get_or (shape md) ''dispersed''"
  obtain c where c: "fst (map_constellation_to_composition R g n md geo w h inc) = Inr c"
    and fp: "focal_points c =
               fst (generate_focal_points R g (get_or (brightness_profile md) ''moderate'')
                      ?s w h)"
    and bal: "calculate_balance ?s (focal_points c) = Inr (balance c)"
    using map_total [OF assms, of g n md geo w h inc] by blast
  have ne: "focal_points c \<noteq> []" unfolding fp by (rule gfp_nonempty)
  have pos: "0 < py_sum (map fp_weight (focal_points c))"
    unfolding fp by (rule gfp_total_weight_pos [OF assms])
  then have nz: "py_sum (map fp_weight (focal_points c)) \<noteq> 0" by simp
  have total: "0 < (\<Sum>i<length (focal_points c). fp_weight (focal_points c ! i))"
    using pos by (simp add: py_sum_sum_list sum_list_map_nth)
  have cx: "com_x (center_of_mass (balance c)) = weighted_average fp_x (focal_points c)"
    using calculate_balance_Inr [OF nz, of ?s] bal
    by (simp add: weighted_average_def py_sum_sum_list sum_list_map_nth)
  have cy: "com_y (center_of_mass (balance c)) = weighted_average fp_y (focal_points c)"
    using calculate_balance_Inr [OF nz, of ?s] bal
    by (simp add: weighted_average_def py_sum_sum_list sum_list_map_nth)
  show ?thesis using c ne total cx cy by blast
qed

text \<open>The instance for the catalog record Orion.\<close>

theorem center_of_mass_is_weighted_average_witness:
  "rng_unit replay_rng \<and>
   (\<exists>c. fst (map_constellation_to_composition replay_rng 0 ''Orion''
               (entry ''Ori'' ''Orionis'' ''Great hunter with belt and sword''
                  ''Hunting prowess, tragic death, grandeur''
                  ''Hourglass with distinctive belt, large and commanding''
                  ''multiple_bright_stars'' 10 ''hourglass_belt'')
               (None :: unit option) (Some 1024) (Some 1024) True) = Inr c \<and>
        focal_points c \<noteq> [] \<and>
        0 < (\<Sum>i<length (focal_points c). fp_weight (focal_points c ! i)) \<and>
        com_x (center_of_mass (balance c)) = weighted_average fp_x (focal_points c) \<and>
        com_y (center_of_mass (balance c)) = weighted_average fp_y (focal_points c))"
  using center_of_mass_is_weighted_average [OF rng_unit_replay, of 0 "''Orion''"
      "entry ''Ori'' ''Orionis'' ''Great hunter with belt and sword''
                  ''Hunting prowess, tragic death, grandeur''
                  ''Hourglass with distinctive belt, large and commanding''
                  ''multiple_bright_stars'' 10 ''hourglass_belt''"
      "None :: unit option" "Some 1024" "Some 1024" True]
    rng_unit_replay
  by simp

section \<open>The two catalog records of the scenarios\<close>

lemma catalog_Orion:
  "map_of CONSTELLATIONS ''Orion'' =
     Some (entry ''Ori'' ''Orionis'' ''Great hunter with belt and sword''
             ''Hunting prowess, tragic death, grandeur''
             ''Hourglass with distinctive belt, large and commanding''
             ''multiple_bright_stars'' 10 ''hourglass_belt'')"
  by (simp add: CONSTELLATIONS_def)

lemma catalog_Gemini:
  "map_of CONSTELLATIONS ''Gemini'' =
     Some (entry ''Gem'' ''Geminorum'' ''Twin brothers Castor and Pollux''
             ''Brotherhood, duality, eternal bond''
             ''Twin parallel figures, two bright stars'' ''two_bright_stars'' 8
             ''parallel_twins'')"
  by (simp add: CONSTELLATIONS_def)

lemma gfp_hourglass:
  "generate_focal_points R g ''multiple_bright_stars'' ''hourglass_belt'' w h =
     ([\<lparr>fp_x = 0.5, fp_y = 0.45, fp_weight = 0.4\<rparr>,
       \<lparr>fp_x = 0.35, fp_y = 0.3, fp_weight = 0.35\<rparr>,
       \<lparr>fp_x = 0.65, fp_y = 0.3, fp_weight = 0.35\<rparr>,
       \<lparr>fp_x = 0.35, fp_y = 0.7, fp_weight = 0.25\<rparr>,
       \<lparr>fp_x = 0.65, fp_y = 0.7, fp_weight = 0.25\<rparr>], g)"
  by (simp add: generate_focal_points_def)

lemma balance_hourglass:
  "calculate_balance ''hourglass_belt''
     [\<lparr>fp_x = 0.5, fp_y = 0.45, fp_weight = 0.4\<rparr>,
      \<lparr>fp_x = 0.35, fp_y = 0.3, fp_weight = 0.35\<rparr>,
      \<lparr>fp_x = 0.65, fp_y = 0.3, fp_weight = 0.35\<rparr>,
      \<lparr>fp_x = 0.35, fp_y = 0.7, fp_weight = 0.25\<rparr>,
      \<lparr>fp_x = 0.65, fp_y = 0.7, fp_weight = 0.25\<rparr>]
   = Inr \<lparr>balance_type = ''centered'',
          center_of_mass = \<lparr>com_x = 0.5, com_y = 0.4625\<rparr>,
          symmetry = ''asymmetric'', stability = ''high''\<rparr>"
  by (simp add: calculate_balance_def py_sum_def Let_def)

lemma distribution_hourglass:
  "determine_spatial_distribution ''hourglass_belt'' 10 = ''linear_arrangement''"
  by (simp add: determine_spatial_distribution_def)

lemma map_Orion:
  "\<exists>c. fst (map_constellation_to_composition R g n
              (entry ''Ori'' ''Orionis'' ''Great hunter with belt and sword''
                 ''Hunting prowess, tragic death, grandeur''
                 ''Hourglass with distinctive belt, large and commanding''
                 ''multiple_bright_stars'' 10 ''hourglass_belt'')
              geo w h inc) = Inr c \<and>
        focal_points c =
          [\<lparr>fp_x = 0.5, fp_y = 0.45, fp_weight = 0.4\<rparr>,
           \<lparr>fp_x = 0.35, fp_y = 0.3, fp_weight = 0.35\<rparr>,
           \<lparr>fp_x = 0.65, fp_y = 0.3, fp_weight = 0.35\<rparr>,
           \<lparr>fp_x = 0.35, fp_y = 0.7, fp_weight = 0.25\<rparr>,
           \<lparr>fp_x = 0.65, fp_y = 0.7, fp_weight = 0.25\<rparr>] \<and>
        spatial_distribution c = ''linear_arrangement''"
proof -
  let ?md = "entry ''Ori'' ''Orionis'' ''Great hunter with belt and sword''
               ''Hunting prowess, tragic death, grandeur''
               ''Hourglass with distinctive belt, large and commanding''
               ''multiple_bright_stars'' 10 ''hourglass_belt''"
  have b: "get_or (brightness_profile ?md) ''moderate'' = ''multiple_bright_stars''"
    and s: "get_or (shape ?md) ''dispersed'' = ''hourglass_belt''"
    and k: "get_or (star_count_visual ?md) 5 = 10"
    by (simp_all add: entry_def get_or_def)
  show ?thesis
    using map_result [of R g ?md w h _ g _ n geo inc, unfolded b s k,
                      OF gfp_hourglass balance_hourglass]
    by (simp add: distribution_hourglass)
qed

lemma gfp_two_bright:
  "generate_focal_points R g ''two_bright_stars'' ''parallel_twins'' w h =
     ([\<lparr>fp_x = 0.35, fp_y = 0.5, fp_weight = 0.5\<rparr>,
       \<lparr>fp_x = 0.65, fp_y = 0.5, fp_weight = 0.5\<rparr>], g)"
  by (simp add: generate_focal_points_def)

lemma balance_twins:
  "calculate_balance ''parallel_twins''
     [\<lparr>fp_x = 0.35, fp_y = 0.5, fp_weight = 0.5\<rparr>,
      \<lparr>fp_x = 0.65, fp_y = 0.5, fp_weight = 0.5\<rparr>]
   = Inr \<lparr>balance_type = ''centered'',
          center_of_mass = \<lparr>com_x = 0.5, com_y = 0.5\<rparr>,
          symmetry = ''asymmetric'', stability = ''high''\<rparr>"
  by (simp add: calculate_balance_def py_sum_def Let_def)

section \<open>The scenarios\<close>

text \<open>
  Claim C1, as amended.  For the catalog record Orion (shape tag \<^verbatim>\<open>hourglass_belt\<close>, 10
  visual stars) the mapping returns five focal points: the belt centre of weight 0.4,
  the two shoulders of weight 0.35 and the two feet of weight 0.25, in this order.  The
  spatial distribution is \<^verbatim>\<open>linear_arrangement\<close>: the shape tag contains \<^verbatim>\<open>belt\<close>, and
  the rules over the shape tag are tried before the thresholds on the star count.
\<close>

theorem orion_composition:
  assumes "map_of CONSTELLATIONS ''Orion'' = Some md"
  shows "shape md = Some ''hourglass_belt'' \<and> star_count_visual md = Some 10 \<and>
         (\<exists>c. fst (map_constellation_to_composition R g ''Orion'' md geo w h inc) = Inr c \<and>
              focal_points c =
                [\<lparr>fp_x = 0.5, fp_y = 0.45, fp_weight = 0.4\<rparr>,
                 \<lparr>fp_x = 0.35, fp_y = 0.3, fp_weight = 0.35\<rparr>,
                 \<lparr>fp_x = 0.65, fp_y = 0.3, fp_weight = 0.35\<rparr>,
                 \<lparr>fp_x = 0.35, fp_y = 0.7, fp_weight = 0.25\<rparr>,
                 \<lparr>fp_x = 0.65, fp_y = 0.7, fp_weight = 0.25\<rparr>] \<and>
              spatial_distribution c = ''linear_arrangement'')"
proof -
  have md: "md = entry ''Ori'' ''Orionis'' ''Great hunter with belt and sword''
                   ''Hunting prowess, tragic death, grandeur''
                   ''Hourglass with distinctive belt, large and commanding''
                   ''multiple_bright_stars'' 10 ''hourglass_belt''"
    using assms catalog_Orion by simp
  have "shape md = Some ''hourglass_belt''" and "star_count_visual md = Some 10"
    unfolding md by (simp_all add: entry_def)
  then show ?thesis
    using map_Orion [of R g "''Orion''" geo w h inc] unfolding md by blast
qed

theorem orion_composition_witness:
  "map_of CONSTELLATIONS ''Orion'' =
     Some (entry ''Ori'' ''Orionis'' ''Great hunter with belt and sword''
             ''Hunting prowess, tragic death, grandeur''
             ''Hourglass with distinctive belt, large and commanding''
             ''multiple_bright_stars'' 10 ''hourglass_belt'') \<and>
   (\<exists>c. fst (map_constellation_to_composition replay_rng 0 ''Orion''
               (entry ''Ori'' ''Orionis'' ''Great hunter with belt and sword''
                  ''Hunting prowess, tragic death, grandeur''
                  ''Hourglass with distinctive belt, large and commanding''
                  ''multiple_bright_stars'' 10 ''hourglass_belt'')
               (None :: unit option) (Some 1024) (Some 1024) True) = Inr c \<and>
        map fp_weight (focal_points c) = [0.4, 0.35, 0.35, 0.25, 0.25] \<and>
        spatial_distribution c = ''linear_arrangement'')"
proof -
  obtain c where
    "fst (map_constellation_to_composition replay_rng 0 ''Orion''
            (entry ''Ori'' ''Orionis'' ''Great hunter with belt and sword''
               ''Hunting prowess, tragic death, grandeur''
               ''Hourglass with distinctive belt, large and commanding''
               ''multiple_bright_stars'' 10 ''hourglass_belt'')
            (None :: unit option) (Some 1024) (Some 1024) True) = Inr c"
    and "focal_points c =
           [\<lparr>fp_x = 0.5, fp_y = 0.45, fp_weight = 0.4\<rparr>,
            \<lparr>fp_x = 0.35, fp_y = 0.3, fp_weight = 0.35\<rparr>,
            \<lparr>fp_x = 0.65, fp_y = 0.3, fp_weight = 0.35\<rparr>,
            \<lparr>fp_x = 0.35, fp_y = 0.7, fp_weight = 0.25\<rparr>,
            \<lparr>fp_x = 0.65, fp_y = 0.7, fp_weight = 0.25\<rparr>]"
    and "spatial_distribution c = ''linear_arrangement''"
    using orion_composition [OF catalog_Orion, of replay_rng 0 "None :: unit option"
        "Some 1024" "Some 1024" True]
    by blast
  then show ?thesis using catalog_Orion by simp
qed

text \<open>
  The claim as it was stated fails at the record Orion: the spatial distribution of its
  composition is not \<^verbatim>\<open>complex_dense\<close>.
\<close>

theorem orion_distribution_counterexample:
  "map_sum id spatial_distribution
     (fst (map_constellation_to_composition replay_rng 0 ''Orion''
             (entry ''Ori'' ''Orionis'' ''Great hunter with belt and sword''
                ''Hunting prowess, tragic death, grandeur''
                ''Hourglass with distinctive belt, large and commanding''
                ''multiple_bright_stars'' 10 ''hourglass_belt'')
             (None :: unit option) (Some 1024) (Some 1024) True))
   \<noteq> Inr ''complex_dense''"
  using map_Orion [of replay_rng 0 "''Orion''" "None :: unit option" "Some 1024"
      "Some 1024" True]
  by auto

text \<open>
  Claim C4.  For the catalog record Gemini (brightness tag \<^verbatim>\<open>two_bright_stars\<close>) the
  mapping returns exactly the two focal points (0.35, 0.5) and (0.65, 0.5), each of weight
  0.5, in this order; the balance type is \<^verbatim>\<open>centered\<close>, the centre of mass is (0.5, 0.5),
  and the symmetry is \<^verbatim>\<open>asymmetric\<close>, since the shape tag \<^verbatim>\<open>parallel_twins\<close> contains
  none of \<^verbatim>\<open>symmetric\<close>, \<^verbatim>\<open>cross\<close> and \<^verbatim>\<open>square\<close>.
\<close>

theorem gemini_composition:
  assumes "map_of CONSTELLATIONS ''Gemini'' = Some md"
  shows "brightness_profile md = Some ''two_bright_stars'' \<and>
         shape md = Some ''parallel_twins'' \<and>
         \<not> str_in ''symmetric'' ''parallel_twins'' \<and> \<not> str_in ''cross'' ''parallel_twins'' \<and>
         \<not> str_in ''square'' ''parallel_twins'' \<and>
         (\<exists>c. fst (map_constellation_to_composition R g ''Gemini'' md geo w h inc) = Inr c \<and>
              focal_points c =
                [\<lparr>fp_x = 0.35, fp_y = 0.5, fp_weight = 0.5\<rparr>,
                 \<lparr>fp_x = 0.65, fp_y = 0.5, fp_weight = 0.5\<rparr>] \<and>
              balance_type (balance c) = ''centered'' \<and>
              center_of_mass (balance c) = \<lparr>com_x = 0.5, com_y = 0.5\<rparr> \<and>
              symmetry (balance c) = ''asymmetric'')"
proof -
  let ?md = "entry ''Gem'' ''Geminorum'' ''Twin brothers Castor and Pollux''
               ''Brotherhood, duality, eternal bond''
               ''Twin parallel figures, two bright stars'' ''two_bright_stars'' 8
               ''parallel_twins''"
  have md: "md = ?md" using assms catalog_Gemini by simp
  have b: "get_or (brightness_profile ?md) ''moderate'' = ''two_bright_stars''"
    and s: "get_or (shape ?md) ''dispersed'' = ''parallel_twins''"
    by (simp_all add: entry_def get_or_def)
  have tags: "brightness_profile md = Some ''two_bright_stars''"
    "shape md = Some ''parallel_twins''"
    unfolding md by (simp_all add: entry_def)
  have res: "\<exists>c. fst (map_constellation_to_composition R g ''Gemini'' ?md geo w h inc) = Inr c \<and>
              focal_points c =
                [\<lparr>fp_x = 0.35, fp_y = 0.5, fp_weight = 0.5\<rparr>,
                 \<lparr>fp_x = 0.65, fp_y = 0.5, fp_weight = 0.5\<rparr>] \<and>
              balance_type (balance c) = ''centered'' \<and>
              center_of_mass (balance c) = \<lparr>com_x = 0.5, com_y = 0.5\<rparr> \<and>
              symmetry (balance c) = ''asymmetric''"
    using map_result [of R g ?md w h _ g _ "''Gemini''" geo inc, unfolded b s,
                      OF gfp_two_bright balance_twins]
    by simp
  have "\<not> str_in ''symmetric'' ''parallel_twins''" "\<not> str_in ''cross'' ''parallel_twins''"
    "\<not> str_in ''square'' ''parallel_twins''"
    by simp_all
  then show ?thesis using tags res unfolding md by blast
qed

theorem gemini_composition_witness:
  "map_of CONSTELLATIONS ''Gemini'' =
     Some (entry ''Gem'' ''Geminorum'' ''Twin brothers Castor and Pollux''
             ''Brotherhood, duality, eternal bond''
             ''Twin parallel figures, two bright stars'' ''two_bright_stars'' 8
             ''parallel_twins'') \<and>
   (\<exists>c. fst (map_constellation_to_composition replay_rng 0 ''Gemini''
               (entry ''Gem'' ''Geminorum'' ''Twin brothers Castor and Pollux''
                  ''Brotherhood, duality, eternal bond''
                  ''Twin parallel figures, two bright stars'' ''two_bright_stars'' 8
                  ''parallel_twins'')
               (None :: unit option) (Some 1024) (Some 1024) True) = Inr c \<and>
        length (focal_points c) = 2 \<and>
        balance_type (balance c) = ''centered'' \<and>
        center_of_mass (balance c) = \<lparr>com_x = 0.5, com_y = 0.5\<rparr> \<and>
        symmetry (balance c) = ''asymmetric'')"
proof -
  obtain c where
    "fst (map_constellation_to_composition replay_rng 0 ''Gemini''
            (entry ''Gem'' ''Geminorum'' ''Twin brothers Castor and Pollux''
               ''Brotherhood, duality, eternal bond''
               ''Twin parallel figures, two bright stars'' ''two_bright_stars'' 8
               ''parallel_twins'')
            (None :: unit option) (Some 1024) (Some 1024) True) = Inr c"
    and "focal_points c =
           [\<lparr>fp_x = 0.35, fp_y = 0.5, fp_weight = 0.5\<rparr>,
            \<lparr>fp_x = 0.65, fp_y = 0.5, fp_weight = 0.5\<rparr>]"
    and "balance_type (balance c) = ''centered''"
    and "center_of_mass (balance c) = \<lparr>com_x = 0.5, com_y = 0.5\<rparr>"
    and "symmetry (balance c) = ''asymmetric''"
    using gemini_composition [OF catalog_Gemini, of replay_rng 0 "None :: unit option"
        "Some 1024" "Some 1024" True]
    by blast
  then show ?thesis using catalog_Gemini by simp
qed

section \<open>Mythology themes\<close>

lemma if_append: "(if c then t @ [a] else t) = t @ (if c then [a] else [])"
  by simp

lemma lower_Nil: "lower s = [] \<longleftrightarrow> s = []"
  by (simp add: lower_def)

text \<open>
  The themes are the first five entries of a list that starts with the fragments of the
  theme field, when this field is not empty.
\<close>

lemma extract_themes_shape:
  "\<exists>ys. extract_mythology_themes md =
     take 5 ((if lower (get_or (theme md) []) \<noteq> []
              then map strip (split CHR '','' (lower (get_or (theme md) []))) else []) @ ys)"
  unfolding extract_mythology_themes_def
  by (simp only: Let_def if_append append_Nil append_assoc) (rule exI, rule refl)

lemma extract_themes_length: "length (extract_mythology_themes md) \<le> 5"
proof -
  obtain xs where "extract_mythology_themes md = take 5 xs"
    using extract_themes_shape [of md] by blast
  then show ?thesis by simp
qed

lemma extract_themes_nonempty:
  assumes "get_or (theme md) [] \<noteq> []"
  shows "extract_mythology_themes md \<noteq> []"
proof -
  let ?t = "lower (get_or (theme md) [])"
  have t: "?t \<noteq> []" using assms by (simp add: lower_Nil)
  obtain ys where "extract_mythology_themes md = take 5 (map strip (split CHR '','' ?t) @ ys)"
    using extract_themes_shape [of md] t by auto
  moreover have "map strip (split CHR '','' ?t) \<noteq> []" using split_nonempty [of "CHR '',''" ?t] by simp
  ultimately show ?thesis by simp
qed

lemma catalog_themes: "\<forall>md\<in>snd ` set CONSTELLATIONS. get_or (theme md) [] \<noteq> []"
  by (simp add: CONSTELLATIONS_def entry_def get_or_def)

text \<open>
  Outside the catalog the list can be empty although mythology was requested: a record
  without theme and without story has no themes.
\<close>

lemma extract_themes_no_text:
  "extract_mythology_themes
     \<lparr>abbr = ''Xyz'', genitive = ''Xyzis'', story = None, theme = None,
      visual_character = None, brightness_profile = None, star_count_visual = None,
      shape = None\<rparr> = []"
  by code_simp

lemma extract_themes_Orion:
  "extract_mythology_themes
     (entry ''Ori'' ''Orionis'' ''Great hunter with belt and sword''
        ''Hunting prowess, tragic death, grandeur''
        ''Hourglass with distinctive belt, large and commanding''
        ''multiple_bright_stars'' 10 ''hourglass_belt'')
   = [''hunting prowess'', ''tragic death'', ''grandeur'', ''the hunt'']"
  by code_simp

text \<open>
  Claim C7.  For every record and canvas the returned list of mythology themes has at most
  five entries, and it is empty when mythology is not requested.  For every catalog record
  (their theme fields are not empty) it is empty exactly when mythology is not requested.
\<close>

theorem mythology_themes_bounded:
  assumes "rng_unit R"
  shows "\<exists>c. fst (map_constellation_to_composition R g n md geo w h inc) = Inr c \<and>
           length (mythology_themes c) \<le> 5 \<and>
           (\<not> inc \<longrightarrow> mythology_themes c = []) \<and>
           (md \<in> snd ` set CONSTELLATIONS \<longrightarrow> (mythology_themes c = [] \<longleftrightarrow> \<not> inc))"
proof -
  obtain c where c: "fst (map_constellation_to_composition R g n md geo w h inc) = Inr c"
    and th: "mythology_themes c = (if inc then extract_mythology_themes md else [])"
    using map_total [OF assms, of g n md geo w h inc] by blast
  have len: "length (mythology_themes c) \<le> 5"
    using extract_themes_length [of md] by (simp add: th)
  have off: "\<not> inc \<longrightarrow> mythology_themes c = []" by (simp add: th)
  have cat: "md \<in> snd ` set CONSTELLATIONS \<longrightarrow> (mythology_themes c = [] \<longleftrightarrow> \<not> inc)"
  proof
    assume "md \<in> snd ` set CONSTELLATIONS"
    then have "extract_mythology_themes md \<noteq> []"
      using catalog_themes extract_themes_nonempty by blast
    then show "mythology_themes c = [] \<longleftrightarrow> \<not> inc" by (simp add: th)
  qed
  show ?thesis using c len off cat by blast
qed

theorem mythology_themes_bounded_witness:
  "rng_unit replay_rng \<and>
   entry ''Ori'' ''Orionis'' ''Great hunter with belt and sword''
     ''Hunting prowess, tragic death, grandeur''
     ''Hourglass with distinctive belt, large and commanding''
     ''multiple_bright_stars'' 10 ''hourglass_belt'' \<in> snd ` set CONSTELLATIONS \<and>
   (\<exists>c. fst (map_constellation_to_composition replay_rng 0 ''Orion''
               (entry ''Ori'' ''Orionis'' ''Great hunter with belt and sword''
                  ''Hunting prowess, tragic death, grandeur''
                  ''Hourglass with distinctive belt, large and commanding''
                  ''multiple_bright_stars'' 10 ''hourglass_belt'')
               (None :: unit option) (Some 1024) (Some 1024) True) = Inr c \<and>
        length (mythology_themes c) \<le> 5 \<and> mythology_themes c \<noteq> [])"
proof -
  have mem: "entry ''Ori'' ''Orionis'' ''Great hunter with belt and sword''
     ''Hunting prowess, tragic death, grandeur''
     ''Hourglass with distinctive belt, large and commanding''
     ''multiple_bright_stars'' 10 ''hourglass_belt'' \<in> snd ` set CONSTELLATIONS"
    using map_of_SomeD [OF catalog_Orion] by (rule image_eqI [rotated]) simp
  show ?thesis
    using mythology_themes_bounded [OF rng_unit_replay, of 0 "''Orion''"
        "entry ''Ori'' ''Orionis'' ''Great hunter with belt and sword''
           ''Hunting prowess, tragic death, grandeur''
           ''Hourglass with distinctive belt, large and commanding''
           ''multiple_bright_stars'' 10 ''hourglass_belt''"
        "None :: unit option" "Some 1024" "Some 1024" True]
      mem rng_unit_replay
    by simp
qed

section \<open>Names that do not resolve\<close>

lemma catalog_names:
  "map fst CONSTELLATIONS =
     [''Andromeda'', ''Aquarius'', ''Aquila'', ''Aries'', ''Cancer'', ''Canis Major'',
      ''Capricornus'', ''Cassiopeia'', ''Centaurus'', ''Cygnus'', ''Gemini'', ''Leo'',
      ''Lyra'', ''Orion'', ''Pegasus'', ''Perseus'', ''Sagittarius'', ''Scorpius'',
      ''Taurus'', ''Ursa Major'', ''Ursa Minor'', ''Virgo'']"
  by (simp add: CONSTELLATIONS_def)

lemma catalog_names_sorted: "sort (map fst CONSTELLATIONS) = map fst CONSTELLATIONS"
  by (rule sorted_sort_id) (simp add: CONSTELLATIONS_def)

lemma unresolved_validate:
  assumes "\<not> resolves v"
  shows "validate_constellation v = v"
proof -
  have no: "\<forall>(name, data)\<in>set CONSTELLATIONS.
              lower v \<noteq> lower name \<and> lower v \<noteq> lower (abbr data)"
    using assms by (auto simp: resolves_def list_ex_iff)
  have "find (\<lambda>name. lower v = lower name) (map fst CONSTELLATIONS) = None"
    using no by (auto simp: find_None_iff)
  moreover have "find (\<lambda>(name, data). lower v = lower (abbr data)) CONSTELLATIONS = None"
    using no by (auto simp: find_None_iff)
  ultimately show ?thesis by (simp add: validate_constellation_def)
qed

lemma unresolved_not_in_catalog:
  assumes "\<not> resolves v"
  shows "map_of CONSTELLATIONS v = None"
proof (rule ccontr)
  assume "map_of CONSTELLATIONS v \<noteq> None"
  then obtain data where "map_of CONSTELLATIONS v = Some data" by auto
  then have "(v, data) \<in> set CONSTELLATIONS" by (rule map_of_SomeD)
  then have "resolves v" by (auto simp: resolves_def list_ex_iff)
  with assms show False by simp
qed

lemma Pegasuz_unresolved: "\<not> resolves ''Pegasuz''"
  by code_simp

text \<open>
  The tool on an input model whose name does not resolve: the field validator has left the
  name as it is, and the tool returns the not-found message with the generator untouched.
\<close>

lemma tool_not_found:
  assumes "\<not> resolves v" and "constellation_name params = validate_constellation v"
  shows "generate_constellation_composition R g fetch params =
           (Inr (ErrorText (''Error: Constellation '' @ [CHR 0x27] @ v @ [CHR 0x27]
                   @ '' not found. Available constellations: ''
                   @ join '', ''
                       [''Andromeda'', ''Aquarius'', ''Aquila'', ''Aries'', ''Cancer'',
                        ''Canis Major'', ''Capricornus'', ''Cassiopeia'', ''Centaurus'',
                        ''Cygnus'', ''Gemini'', ''Leo'', ''Lyra'', ''Orion'', ''Pegasus'',
                        ''Perseus'', ''Sagittarius'', ''Scorpius'', ''Taurus'',
                        ''Ursa Major'', ''Ursa Minor'', ''Virgo''])), g)"
proof -
  have name: "constellation_name params = v"
    using assms unresolved_validate by simp
  have names: "sort (map fst CONSTELLATIONS) =
           [''Andromeda'', ''Aquarius'', ''Aquila'', ''Aries'', ''Cancer'',
                        ''Canis Major'', ''Capricornus'', ''Cassiopeia'', ''Centaurus'',
                        ''Cygnus'', ''Gemini'', ''Leo'', ''Lyra'', ''Orion'', ''Pegasus'',
                        ''Perseus'', ''Sagittarius'', ''Scorpius'', ''Taurus'',
                        ''Ursa Major'', ''Ursa Minor'', ''Virgo'']"
    unfolding catalog_names_sorted by (rule catalog_names)
  have "generate_constellation_composition R g fetch params =
          (Inr (ErrorText (''Error: Constellation '' @ [CHR 0x27] @ v @ [CHR 0x27]
                  @ '' not found. Available constellations: ''
                  @ join '', '' (sort (map fst CONSTELLATIONS)))), g)"
    unfolding generate_constellation_composition_def
    by (simp only: Let_def name unresolved_not_in_catalog [OF assms(1)] option.case)
  then show ?thesis unfolding names .
qed

text \<open>A call with a name that the input model accepts and that does not resolve.\<close>

lemma call_not_found:
  assumes "3 \<le> length (trim name)" and "length (trim name) \<le> 50"
    and "\<not> resolves (trim name)"
    and "in_canvas_range w" and "in_canvas_range h"
  shows "call_generate_constellation_composition R g fetch name w h inc fmt =
           (Inr (ErrorText (''Error: Constellation '' @ [CHR 0x27] @ trim name @ [CHR 0x27]
                   @ '' not found. Available constellations: ''
                   @ join '', ''
                       [''Andromeda'', ''Aquarius'', ''Aquila'', ''Aries'', ''Cancer'',
                        ''Canis Major'', ''Capricornus'', ''Cassiopeia'', ''Centaurus'',
                        ''Cygnus'', ''Gemini'', ''Leo'', ''Lyra'', ''Orion'', ''Pegasus'',
                        ''Perseus'', ''Sagittarius'', ''Scorpius'', ''Taurus'',
                        ''Ursa Major'', ''Ursa Minor'', ''Virgo''])), g)"
proof -
  let ?params = "\<lparr>constellation_name = validate_constellation (trim name), canvas_width = w,
                   canvas_height = h, include_mythology = inc, response_format = fmt\<rparr>"
  have inp: "make_input name w h inc fmt = Inr ?params"
    using assms(1,2,4,5) by (simp add: make_input_def Let_def)
  have "generate_constellation_composition R g fetch ?params =
           (Inr (ErrorText (''Error: Constellation '' @ [CHR 0x27] @ trim name @ [CHR 0x27]
                   @ '' not found. Available constellations: ''
                   @ join '', ''
                       [''Andromeda'', ''Aquarius'', ''Aquila'', ''Aries'', ''Cancer'',
                        ''Canis Major'', ''Capricornus'', ''Cassiopeia'', ''Centaurus'',
                        ''Cygnus'', ''Gemini'', ''Leo'', ''Lyra'', ''Orion'', ''Pegasus'',
                        ''Perseus'', ''Sagittarius'', ''Scorpius'', ''Taurus'',
                        ''Ursa Major'', ''Ursa Minor'', ''Virgo''])), g)"
    by (rule tool_not_found [OF assms(3)]) simp
  then show ?thesis
    by (simp only: call_generate_constellation_composition_def inp sum.case)
qed

text \<open>A call with a name that is too short or too long for the input model.\<close>

lemma call_invalid_length:
  assumes "length (trim name) < 3 \<or> 50 < length (trim name)"
  shows "call_generate_constellation_composition R g fetch name w h inc fmt =
           (Inl ValidationError, g)"
  using assms by (auto simp: call_generate_constellation_composition_def make_input_def Let_def)

lemma trim_Pegasuz: "trim ''Pegasuz'' = ''Pegasuz''"
  by (simp add: trim_def white_space_def)

lemma trim_Zz: "trim ''Zz'' = ''Zz''"
  by (simp add: trim_def white_space_def)

lemma Zz_unresolved: "\<not> resolves ''Zz''"
  by code_simp

text \<open>
  The two strippers differ on the separators 0x1C to 0x1F: the input model keeps them, so
  a name with such a character before or after a catalog name does not resolve.
\<close>

lemma separators_kept:
  "trim (CHR 0x1F # ''Orion'' @ [CHR 0x1C]) = CHR 0x1F # ''Orion'' @ [CHR 0x1C] \<and>
   strip (CHR 0x1F # ''Orion'' @ [CHR 0x1C]) = ''Orion'' \<and>
   \<not> resolves (CHR 0x1F # ''Orion'' @ [CHR 0x1C])"
  by code_simp

text \<open>
  A name of a catalog record with whitespace around it: as given it is equal to no
  catalog name, but the input model strips it, and the call returns a composition.
\<close>

lemma padded_name_resolves:
  assumes "in_canvas_range w" and "in_canvas_range h"
  shows "\<exists>c. call_generate_constellation_composition R g fetch ''Orion '' w h inc JSON =
               (Inr (JsonResult ''Orion'' ''Ori'' w h c), g)"
proof -
  let ?md = "entry ''Ori'' ''Orionis'' ''Great hunter with belt and sword''
               ''Hunting prowess, tragic death, grandeur''
               ''Hourglass with distinctive belt, large and commanding''
               ''multiple_bright_stars'' 10 ''hourglass_belt''"
  have t: "trim ''Orion '' = ''Orion''" by (simp add: trim_def white_space_def)
  have v: "validate_constellation ''Orion'' = ''Orion''" by code_simp
  have inp: "make_input ''Orion '' w h inc JSON =
               Inr \<lparr>constellation_name = ''Orion'', canvas_width = w, canvas_height = h,
                    include_mythology = inc, response_format = JSON\<rparr>"
    using assms by (simp add: make_input_def t v)
  have b: "get_or (brightness_profile ?md) ''moderate'' = ''multiple_bright_stars''"
    and s: "get_or (shape ?md) ''dispersed'' = ''hourglass_belt''"
    by (simp_all add: entry_def get_or_def)
  obtain c where c: "map_constellation_to_composition R g ''Orion'' ?md (fetch ''Ori'') w h inc
                       = (Inr c, g)"
    using map_result [of R g ?md w h _ g _ "''Orion''" "fetch ''Ori''" inc, unfolded b s,
                      OF gfp_hourglass balance_hourglass]
    by blast
  have a: "abbr ?md = ''Ori''" by (simp add: entry_def)
  have "generate_constellation_composition R g fetch
          \<lparr>constellation_name = ''Orion'', canvas_width = w, canvas_height = h,
           include_mythology = inc, response_format = JSON\<rparr>
        = (Inr (JsonResult ''Orion'' ''Ori'' w h c), g)"
    unfolding generate_constellation_composition_def
    by (simp add: catalog_Orion a c del: map_of.simps)
  then show ?thesis
    by (simp add: call_generate_constellation_composition_def inp)
qed

text \<open>
  Claim C9, as amended.  When the name, stripped of the whitespace around it, has from 3
  to 50 characters and resolves to no catalog record, by name or by abbreviation and up
  to case, and the canvas dimensions are accepted, the call returns the not-found
  message: it quotes the stripped name and lists all catalog names, sorted and joined by
  a comma and a space.  No mapping is performed: the result is the message, and the
  generator is left in the state it was in.
\<close>

theorem unresolved_name_not_found:
  assumes "3 \<le> length (trim name)" and "length (trim name) \<le> 50"
    and "\<not> resolves (trim name)"
    and "in_canvas_range w" and "in_canvas_range h"
  shows "call_generate_constellation_composition R g fetch name w h inc fmt =
           (Inr (ErrorText (''Error: Constellation '' @ [CHR 0x27] @ trim name @ [CHR 0x27]
                   @ '' not found. Available constellations: ''
                   @ join '', ''
                       [''Andromeda'', ''Aquarius'', ''Aquila'', ''Aries'', ''Cancer'',
                        ''Canis Major'', ''Capricornus'', ''Cassiopeia'', ''Centaurus'',
                        ''Cygnus'', ''Gemini'', ''Leo'', ''Lyra'', ''Orion'', ''Pegasus'',
                        ''Perseus'', ''Sagittarius'', ''Scorpius'', ''Taurus'',
                        ''Ursa Major'', ''Ursa Minor'', ''Virgo''])), g) \<and>
         sort (map fst CONSTELLATIONS) =
           [''Andromeda'', ''Aquarius'', ''Aquila'', ''Aries'', ''Cancer'',
                        ''Canis Major'', ''Capricornus'', ''Cassiopeia'', ''Centaurus'',
                        ''Cygnus'', ''Gemini'', ''Leo'', ''Lyra'', ''Orion'', ''Pegasus'',
                        ''Perseus'', ''Sagittarius'', ''Scorpius'', ''Taurus'',
                        ''Ursa Major'', ''Ursa Minor'', ''Virgo'']"
proof -
  have "sort (map fst CONSTELLATIONS) =
           [''Andromeda'', ''Aquarius'', ''Aquila'', ''Aries'', ''Cancer'',
                        ''Canis Major'', ''Capricornus'', ''Cassiopeia'', ''Centaurus'',
                        ''Cygnus'', ''Gemini'', ''Leo'', ''Lyra'', ''Orion'', ''Pegasus'',
                        ''Perseus'', ''Sagittarius'', ''Scorpius'', ''Taurus'',
                        ''Ursa Major'', ''Ursa Minor'', ''Virgo'']"
    unfolding catalog_names_sorted by (rule catalog_names)
  then show ?thesis
    using call_not_found [OF assms, of R g fetch inc fmt] by (simp only: simp_thms)
qed

text \<open>The instance for the name \<^verbatim>\<open>Pegasuz\<close>.\<close>

theorem unresolved_name_not_found_witness:
  "3 \<le> length (trim ''Pegasuz'') \<and> length (trim ''Pegasuz'') \<le> 50 \<and>
   \<not> resolves (trim ''Pegasuz'') \<and> in_canvas_range (Some 1024) \<and>
   call_generate_constellation_composition replay_rng 0 (Map.empty :: string \<Rightarrow> unit option)
     ''Pegasuz'' (Some 1024) (Some 1024) True JSON
   = (Inr (ErrorText (''Error: Constellation '' @ [CHR 0x27] @ ''Pegasuz'' @ [CHR 0x27]
             @ '' not found. Available constellations: ''
             @ join '', ''
                 [''Andromeda'', ''Aquarius'', ''Aquila'', ''Aries'', ''Cancer'',
                        ''Canis Major'', ''Capricornus'', ''Cassiopeia'', ''Centaurus'',
                        ''Cygnus'', ''Gemini'', ''Leo'', ''Lyra'', ''Orion'', ''Pegasus'',
                        ''Perseus'', ''Sagittarius'', ''Scorpius'', ''Taurus'',
                        ''Ursa Major'', ''Ursa Minor'', ''Virgo''])), 0)"
proof -
  have len: "3 \<le> length (trim ''Pegasuz'')" "length (trim ''Pegasuz'') \<le> 50"
    by (simp_all add: trim_Pegasuz)
  have unres: "\<not> resolves (trim ''Pegasuz'')"
    using Pegasuz_unresolved by (simp add: trim_Pegasuz)
  have canvas: "in_canvas_range (Some 1024)"
    by (simp add: in_canvas_range_def)
  show ?thesis
    using unresolved_name_not_found [OF len unres canvas canvas,
        of replay_rng 0 "Map.empty :: string \<Rightarrow> unit option" True JSON]
      len unres canvas
    by (simp add: trim_Pegasuz)
qed

text \<open>
  The claim as it was stated, for every name that does not resolve, fails at the name
  \<^verbatim>\<open>Zz\<close>: it resolves to no catalog record, and the call ends in a validation error of
  the input model, not in the not-found message.
\<close>

theorem unresolved_name_counterexample:
  "\<not> resolves ''Zz'' \<and>
   call_generate_constellation_composition replay_rng 0 (Map.empty :: string \<Rightarrow> unit option)
     ''Zz'' (Some 1024) (Some 1024) True JSON
   = (Inl ValidationError, 0)"
  using Zz_unresolved
    call_invalid_length [of "''Zz''" replay_rng 0 "Map.empty :: string \<Rightarrow> unit option"
      "Some 1024" "Some 1024" True JSON]
  by (simp add: trim_Zz)

end
